theory Spec2Isabelle
  imports Main "HOL-Library.List_Lexorder" "HOL-Library.Char_ord"
begin

section \<open>Python values and built-ins used by time\_series\_transport.py\<close>

text \<open>
  Exceptions are values.  \<open>IndexError\<close> is what Python raises for \<open>xs[0]\<close> and
  \<open>xs[-1]\<close> on an empty list; \<open>ValueError\<close> and \<open>IOError\<close> are the two exceptions
  named in \<open>ComputeTransportSubtask.setup_and_check\<close>; \<open>AttributeError\<close> is raised
  when an attribute is read that the object does not have.
\<close>

datatype exn = IndexError | ValueError | IOError | AttributeError

text \<open>
  \<open>'{:04d}'.format(i)\<close>: the decimal digits of \<open>i\<close>, padded with zeros on the left
  to a width of four characters, the sign counting as one of them.
\<close>

definition digit_char :: "nat \<Rightarrow> char" where
  "digit_char d = ''0123456789'' ! d"

function str_nat :: "nat \<Rightarrow> string" where
  "str_nat n = (if n < 10 then [digit_char n] else str_nat (n div 10) @ [digit_char (n mod 10)])"
  by pat_completeness auto
termination
  by (relation "measure (\<lambda>n. n)") auto

declare str_nat.simps [simp del]

definition zfill :: "nat \<Rightarrow> string \<Rightarrow> string" where
  "zfill w s = replicate (w - length s) (CHR ''0'') @ s"

definition format_04d :: "int \<Rightarrow> string" where
  "format_04d i =
     (if i < 0 then CHR ''-'' # zfill 3 (str_nat (nat (- i))) else zfill 4 (str_nat (nat i)))"

text \<open>\<open>s.replace(a, b)\<close> for one-character \<open>a\<close> and \<open>b\<close>.\<close>

definition replace_char :: "char \<Rightarrow> char \<Rightarrow> string \<Rightarrow> string" where
  "replace_char a b s = map (\<lambda>c. if c = a then b else c) s"

text \<open>
  The configuration parser (\<open>MpasAnalysisConfigParser\<close>) and
  \<open>build_config_full_path\<close> are not among the source files.  A configuration is the
  collection of its accessors, each a function of section and option; the options the
  module reads are taken to be defined.
\<close>

record config =
  getint :: "string \<Rightarrow> string \<Rightarrow> int"
  getExpression :: "string \<Rightarrow> string \<Rightarrow> string list"
  get_option :: "string \<Rightarrow> string \<Rightarrow> string"
  has_option :: "string \<Rightarrow> string \<Rightarrow> bool"
  build_config_full_path :: "string \<Rightarrow> string \<Rightarrow> string"

text \<open>
  Every call that leaves the module (logging, the file system, xarray, plotting) is
  recorded as an event, in program order.
\<close>

datatype event =
    LogInfo string
  | LogWarning string
  | LogInfoTransport
  | MakeDirs string
  | PathExists string
  | OpenMpasDataset string
  | OpenDataset string
  | OpenMfDataset "string list"
  | WriteNetcdf string
  | ReadFeatureCollection string
  | TimeseriesAnalysisPlot string "string list" "string list" int "int option" "int option"
  | Savefig string
  | WriteImageXml string string string

section \<open>Subtask objects\<close>

text \<open>
  Subtask objects live in a store and are referred to by their address, because
  \<open>run_after\<close> mutates an object that other objects already refer to.
\<close>

type_synonym ref = nat

text \<open>
  The fields that \<open>AnalysisTask.__init__\<close> stores from its arguments.  The base class is
  not among the source files; its constructor is taken to store its arguments and to start
  with no run-after constraint.
\<close>

record analysis_task =
  taskName :: string
  componentName :: string
  tags :: "string list"
  subtaskName :: "string option"
  runAfterTasks :: "ref list"

record compute_transport_subtask = analysis_task +
  startYear :: int
  endYear :: int
  masksSubtask :: ref
  transectsToPlot :: "string list"
  subprocessCount :: int
  daskThreads :: int
  restartFileName :: "string option"

record combine_transport_subtask = analysis_task +
  startYears :: "int list"
  endYears :: "int list"

record plot_transport_subtask = analysis_task +
  transportTransectFileName :: string
  transect :: string
  transectIndex :: nat
  controlConfig :: "config option"
  plotsDirectory :: "string option"
  xmlFileNames :: "string list"

text \<open>
  Modelled from the spec: \<open>AnalysisTask.run_after\<close> (base class, not among the source
  files) records the run-after constraint "this task runs after \<open>t\<close>" in the task's
  \<open>runAfterTasks\<close>; recording a constraint twice is the same as recording it once.
\<close>

definition run_after :: "ref list \<Rightarrow> ref \<Rightarrow> ref list" where
  "run_after rs t = (if t \<in> set rs then rs else rs @ [t])"

subsection \<open>\<open>ComputeTransportSubtask.__init__\<close>\<close>

definition ComputeTransportSubtask_init ::
  "int \<Rightarrow> config \<Rightarrow> 'a analysis_task_scheme \<Rightarrow> int \<Rightarrow> int \<Rightarrow> ref \<Rightarrow> string list
     \<Rightarrow> compute_transport_subtask" where
  "ComputeTransportSubtask_init ncpu cfg parentTask sy ey masks toPlot =
     (let tn = taskName parentTask;
          parallelTaskCount = getint cfg ''execute'' ''parallelTaskCount''
      in \<lparr> taskName = tn,
           componentName = componentName parentTask,
           tags = tags parentTask,
           subtaskName = Some (''computeTransport_'' @ format_04d sy @ ''-'' @ format_04d ey),
           runAfterTasks = run_after [] masks,
           startYear = sy,
           endYear = ey,
           masksSubtask = masks,
           transectsToPlot = toPlot,
           subprocessCount = min parallelTaskCount (getint cfg tn ''subprocessCount''),
           daskThreads = min ncpu (getint cfg tn ''daskThreads''),
           restartFileName = None \<rparr>)"

subsection \<open>\<open>PlotTransportSubtask.__init__\<close> and \<open>setup_and_check\<close>\<close>

definition PlotTransportSubtask_init ::
  "'a analysis_task_scheme \<Rightarrow> string \<Rightarrow> nat \<Rightarrow> config option \<Rightarrow> string
     \<Rightarrow> plot_transport_subtask" where
  "PlotTransportSubtask_init parentTask t idx control fileName =
     \<lparr> taskName = taskName parentTask,
       componentName = componentName parentTask,
       tags = tags parentTask,
       subtaskName = Some (''plotTransport_'' @ replace_char (CHR '' '') (CHR ''_'') t),
       runAfterTasks = [],
       transportTransectFileName = fileName,
       transect = t,
       transectIndex = idx,
       controlConfig = control,
       plotsDirectory = None,
       xmlFileNames = [] \<rparr>"


subsection \<open>\<open>CombineTransportSubtask.__init__\<close>\<close>

definition CombineTransportSubtask_init ::
  "'a analysis_task_scheme \<Rightarrow> int list \<Rightarrow> int list \<Rightarrow> combine_transport_subtask" where
  "CombineTransportSubtask_init parentTask sys eys =
     \<lparr> taskName = taskName parentTask,
       componentName = componentName parentTask,
       tags = tags parentTask,
       subtaskName = Some ''combineTimeSeries'',
       runAfterTasks = [],
       startYears = sys,
       endYears = eys \<rparr>"

subsection \<open>\<open>TimeSeriesTransport.__init__\<close>\<close>

text \<open>
  The objects of the store.  \<open>ComputeTransectMasksSubtask\<close> is a class of another module:
  the object keeps the two constructor arguments and its run-after list.
\<close>

datatype subtask =
    ComputeTransectMasksSubtask string string "ref list"
  | ComputeTransportSubtask compute_transport_subtask
  | CombineTransportSubtask combine_transport_subtask
  | PlotTransportSubtask plot_transport_subtask

fun runAfterTasks_of :: "subtask \<Rightarrow> ref list" where
  "runAfterTasks_of (ComputeTransectMasksSubtask _ _ rs) = rs"
| "runAfterTasks_of (ComputeTransportSubtask t) = runAfterTasks t"
| "runAfterTasks_of (CombineTransportSubtask t) = runAfterTasks t"
| "runAfterTasks_of (PlotTransportSubtask t) = runAfterTasks t"

fun subtask_run_after :: "subtask \<Rightarrow> ref \<Rightarrow> subtask" where
  "subtask_run_after (ComputeTransectMasksSubtask f s rs) r =
     ComputeTransectMasksSubtask f s (run_after rs r)"
| "subtask_run_after (ComputeTransportSubtask t) r =
     ComputeTransportSubtask (t \<lparr> runAfterTasks := run_after (runAfterTasks t) r \<rparr>)"
| "subtask_run_after (CombineTransportSubtask t) r =
     CombineTransportSubtask (t \<lparr> runAfterTasks := run_after (runAfterTasks t) r \<rparr>)"
| "subtask_run_after (PlotTransportSubtask t) r =
     PlotTransportSubtask (t \<lparr> runAfterTasks := run_after (runAfterTasks t) r \<rparr>)"

text \<open>\<open>a.run_after(b)\<close> on the store: the object at \<open>a\<close> is updated in place.\<close>

definition store_run_after :: "subtask list \<Rightarrow> ref \<Rightarrow> ref \<Rightarrow> subtask list" where
  "store_run_after store a b = store[a := subtask_run_after (store ! a) b]"

record time_series_transport = analysis_task +
  subtasks :: "ref list"

text \<open>
  Modelled from the spec: \<open>AnalysisTask.add_subtask\<close> (base class, not among the source
  files) adds the subtask to the task's \<open>subtasks\<close>, once.
\<close>

definition add_subtask :: "time_series_transport \<Rightarrow> ref \<Rightarrow> time_series_transport" where
  "add_subtask self r =
     (if r \<in> set (subtasks self) then self else self \<lparr> subtasks := subtasks self @ [r] \<rparr>)"

text \<open>
  What the constructor obtains from outside the module: the CPU count of the machine,
  \<open>get_region_mask\<close> and \<open>get_feature_list\<close>.
\<close>

record externals =
  cpu_count :: int
  get_region_mask :: "config \<Rightarrow> string \<Rightarrow> string"
  get_feature_list :: "string \<Rightarrow> string list"

text \<open>The loop \<open>for year in years\<close> (lines 101--107).\<close>

fun compute_loop ::
  "externals \<Rightarrow> config \<Rightarrow> ref \<Rightarrow> ref \<Rightarrow> string list \<Rightarrow> int list
     \<Rightarrow> time_series_transport \<times> subtask list \<Rightarrow> time_series_transport \<times> subtask list" where
  "compute_loop ext cfg masks combine toPlot [] (self, store) = (self, store)"
| "compute_loop ext cfg masks combine toPlot (year # years) (self, store) =
     (let computeSubtask = length store;
          store1 = store @ [ComputeTransportSubtask
                     (ComputeTransportSubtask_init (cpu_count ext) cfg self year year masks toPlot)];
          self1 = add_subtask self computeSubtask;
          store2 = store_run_after store1 computeSubtask masks;
          store3 = store_run_after store2 combine computeSubtask
      in compute_loop ext cfg masks combine toPlot years (self1, store3))"

text \<open>The loop \<open>for index, transect in enumerate(transectsToPlot)\<close> (lines 109--113).\<close>

fun plot_loop ::
  "config option \<Rightarrow> string \<Rightarrow> ref \<Rightarrow> (nat \<times> string) list
     \<Rightarrow> time_series_transport \<times> subtask list \<Rightarrow> time_series_transport \<times> subtask list" where
  "plot_loop control fileName combine [] (self, store) = (self, store)"
| "plot_loop control fileName combine ((index, t) # rest) (self, store) =
     (let plotTransportSubtask = length store;
          store1 = store @ [PlotTransportSubtask
                     (PlotTransportSubtask_init self t index control fileName)];
          store2 = store_run_after store1 plotTransportSubtask combine;
          self1 = add_subtask self plotTransportSubtask
      in plot_loop control fileName combine rest (self1, store2))"

text \<open>
  The list of transects that is plotted: the option \<open>transectsToPlot\<close>, or every feature
  of the transect file when the option contains \<open>'all'\<close> (lines 84--87).
\<close>

definition transects_to_plot :: "externals \<Rightarrow> config \<Rightarrow> string list" where
  "transects_to_plot ext cfg =
     (let transportTransectFileName = get_region_mask ext cfg ''transportTransects.geojson'';
          toPlot = getExpression cfg ''timeSeriesTransport'' ''transectsToPlot''
      in if ''all'' \<in> set toPlot then get_feature_list ext transportTransectFileName else toPlot)"

definition TimeSeriesTransport_init ::
  "externals \<Rightarrow> config \<Rightarrow> config option \<Rightarrow> time_series_transport \<times> subtask list" where
  "TimeSeriesTransport_init ext cfg control =
     (let self0 = \<lparr> taskName = ''timeSeriesTransport'',
                     componentName = ''ocean'',
                     tags = [''timeSeries'', ''transport''],
                     subtaskName = None,
                     runAfterTasks = [],
                     subtasks = [] \<rparr>;
          startYear = getint cfg ''timeSeries'' ''startYear'';
          endYear = getint cfg ''timeSeries'' ''endYear'';
          years = [startYear..endYear];
          transportTransectFileName = get_region_mask ext cfg ''transportTransects.geojson'';
          toPlot = transects_to_plot ext cfg;
          masksSubtask = 0;
          store1 = [ComputeTransectMasksSubtask transportTransectFileName ''transportMasks'' []];
          self1 = add_subtask self0 masksSubtask;
          combineSubtask = length store1;
          store2 = store1 @ [CombineTransportSubtask (CombineTransportSubtask_init self1 years years)];
          (self2, store3) = compute_loop ext cfg masksSubtask combineSubtask toPlot years (self1, store2)
      in plot_loop control transportTransectFileName combineSubtask (enumerate 0 toPlot)
           (self2, store3))"

text \<open>The objects that \<open>self.subtasks\<close> refers to, in order.\<close>

definition subtask_objects :: "time_series_transport \<times> subtask list \<Rightarrow> subtask list" where
  "subtask_objects p = map (nth (snd p)) (subtasks (fst p))"

text \<open>The run-after constraints of a store, as a relation: \<open>(a, b)\<close> when \<open>a\<close> runs after \<open>b\<close>.\<close>

definition runs_after :: "subtask list \<Rightarrow> (ref \<times> ref) set" where
  "runs_after store = {(a, b). a < length store \<and> b \<in> set (runAfterTasks_of (store ! a))}"

fun is_masks :: "subtask \<Rightarrow> bool" where
  "is_masks (ComputeTransectMasksSubtask _ _ _) = True"
| "is_masks _ = False"

fun is_compute :: "subtask \<Rightarrow> bool" where
  "is_compute (ComputeTransportSubtask _) = True"
| "is_compute _ = False"

fun is_combine :: "subtask \<Rightarrow> bool" where
  "is_combine (CombineTransportSubtask _) = True"
| "is_combine _ = False"

fun is_plot :: "subtask \<Rightarrow> bool" where
  "is_plot (PlotTransportSubtask _) = True"
| "is_plot _ = False"

text \<open>What is read off an object of each class: the years, the two lists, the transect.\<close>

fun compute_years :: "subtask \<Rightarrow> (int \<times> int) option" where
  "compute_years (ComputeTransportSubtask t) = Some (startYear t, endYear t)"
| "compute_years _ = None"

fun combine_years :: "subtask \<Rightarrow> (int list \<times> int list) option" where
  "combine_years (CombineTransportSubtask t) = Some (startYears t, endYears t)"
| "combine_years _ = None"

fun plot_transect :: "subtask \<Rightarrow> (nat \<times> string) option" where
  "plot_transect (PlotTransportSubtask t) = Some (transectIndex t, transect t)"
| "plot_transect _ = None"

subsection \<open>\<open>ComputeTransportSubtask.setup_and_check\<close>\<close>

text \<open>
  The three calls that can raise are parameters: the base class's \<open>setup_and_check\<close>,
  \<open>check_analysis_enabled\<close> and \<open>runStreams.readpath('restart')\<close>, each with the
  exception it raises or the value it returns.  Only the last one is inside the
  \<open>try\<close>, together with the index \<open>[0]\<close>; \<open>except ValueError\<close> does not catch the
  \<open>IndexError\<close> of an empty list.
\<close>

definition ComputeTransportSubtask_setup_and_check ::
  "exn + unit \<Rightarrow> exn + unit \<Rightarrow> exn + string list \<Rightarrow> compute_transport_subtask
     \<Rightarrow> exn + compute_transport_subtask" where
  "ComputeTransportSubtask_setup_and_check base enabled restart self =
     (case base of
        Inl e \<Rightarrow> Inl e
      | Inr _ \<Rightarrow>
          (case enabled of
             Inl e \<Rightarrow> Inl e
           | Inr _ \<Rightarrow>
               (case restart of
                  Inl e \<Rightarrow> if e = ValueError then Inl IOError else Inl e
                | Inr [] \<Rightarrow> Inl IndexError
                | Inr (p # _) \<Rightarrow> Inr (self \<lparr> restartFileName := Some p \<rparr>))))"

subsection \<open>\<open>ComputeTransportSubtask.run_task\<close>\<close>

text \<open>
  The two format strings that both \<open>run_task\<close> methods share:
  \<open>'{}/transport/'.format(build_config_full_path(config, 'output', 'timeseriesSubdirectory'))\<close>
  and \<open>'{}/transport_{:04d}-{:04d}.nc'.format(outputDirectory, startYear, endYear)\<close>.
\<close>

definition output_directory :: "config \<Rightarrow> string" where
  "output_directory cfg =
     build_config_full_path cfg ''output'' ''timeseriesSubdirectory'' @ ''/transport/''"

definition transport_file :: "string \<Rightarrow> int \<Rightarrow> int \<Rightarrow> string" where
  "transport_file outputDirectory s e =
     outputDirectory @ ''/transport_'' @ format_04d s @ ''-'' @ format_04d e @ ''.nc''"

text \<open>
  A transport time-series file: the length of its \<open>Time\<close> dimension, the variables
  \<open>year\<close> and \<open>month\<close> along \<open>Time\<close> when the file holds them, the \<open>transport\<close>
  variable (its values are of an abstract type, the module never inspects them), the two
  attributes of that variable and the \<open>transectNames\<close> coordinate, whose length is the
  length of the \<open>nTransects\<close> dimension.
\<close>

record 'a transport_ds =
  Time :: nat
  year :: "int list option"
  month :: "int list option"
  transport :: 'a
  units :: string
  description :: string
  transectNames :: "string list"

text \<open>The world a run acts on: the transport files by name, and the events so far.\<close>

record 'a world =
  files :: "string \<rightharpoonup> 'a transport_ds"
  events :: "event list"

datatype velocity = NormalTransportVelocity | NormalPlusGMBolusVelocity | NormalVelocity

text \<open>
  What a run obtains from outside the module: the history files that
  \<open>historyStreams.readpath\<close> finds between two dates (or the exception it raises), the
  year and month of a history file (\<open>get_files_year_month\<close>), the variables a history
  file holds, the name of the mask file and the decoded transect names in it.  The array
  computation is xarray's: the model has the variables of the concatenated history
  files, of the mesh (restart) file and of the selected transect masks, and the
  operations that the module composes, as parameters: \<open>+\<close> and \<open>*\<close> (with
  broadcasting, also with a float on the left), \<open>- 1\<close>, \<open>isel(nCells=...)\<close> and
  \<open>sum(dim=...)\<close>.  The float \<open>0.5\<close> and \<open>constants.m3ps_to_Sv\<close>, a constant of another
  module, are values of the same abstract type.  Nothing is assumed of any of them.
\<close>

record 'a run_env =
  readpath :: "string \<Rightarrow> string \<Rightarrow> exn + string list"
  files_year_month :: "string \<Rightarrow> int \<times> int"
  variables :: "string \<Rightarrow> string list"
  maskFileName :: string
  mask_transectNames :: "string list"
  history_variable :: "string list \<Rightarrow> string \<Rightarrow> 'a"
  mesh_variable :: "string \<Rightarrow> string \<Rightarrow> 'a"
  mask_edge_signs :: "nat list \<Rightarrow> 'a"
  one_half :: 'a
  m3ps_to_Sv :: 'a
  minus_one :: "'a \<Rightarrow> 'a"
  isel_nCells :: "'a \<Rightarrow> 'a \<Rightarrow> 'a"
  xr_add :: "'a \<Rightarrow> 'a \<Rightarrow> 'a"
  xr_mul :: "'a \<Rightarrow> 'a \<Rightarrow> 'a"
  xr_sum :: "string list \<Rightarrow> 'a \<Rightarrow> 'a"
  xr_Time :: "string list \<Rightarrow> nat"

datatype outcome = Raised exn | ReturnedEarly | Completed

text \<open>Lines 263--277: the variables to load, decided on the first input file.\<close>

definition select_variables :: "string list \<Rightarrow> string list \<times> event list" where
  "select_variables present =
     (if ''timeMonthly_avg_normalTransportVelocity'' \<in> set present then
        ([''timeMonthly_avg_layerThickness'', ''timeMonthly_avg_normalTransportVelocity''], [])
      else if ''timeMonthly_avg_normalGMBolusVelocity'' \<in> set present then
        ([''timeMonthly_avg_layerThickness'', ''timeMonthly_avg_normalVelocity'',
          ''timeMonthly_avg_normalGMBolusVelocity''], [])
      else
        ([''timeMonthly_avg_layerThickness'', ''timeMonthly_avg_normalVelocity''],
         [LogWarning ''Cannot compute transport velocity. Using advection velocity.'']))"

text \<open>
  Lines 323--329: the velocity, decided on the concatenated data, which holds the
  variables that were loaded.
\<close>

definition select_velocity :: "string list \<Rightarrow> velocity" where
  "select_velocity loaded =
     (if ''timeMonthly_avg_normalTransportVelocity'' \<in> set loaded then NormalTransportVelocity
      else if ''timeMonthly_avg_normalGMBolusVelocity'' \<in> set loaded then NormalPlusGMBolusVelocity
      else NormalVelocity)"

definition velocity_of :: "'a run_env \<Rightarrow> velocity \<Rightarrow> string list \<Rightarrow> 'a" where
  "velocity_of env vel inputFiles =
     (case vel of
        NormalTransportVelocity \<Rightarrow>
          history_variable env inputFiles ''timeMonthly_avg_normalTransportVelocity''
      | NormalPlusGMBolusVelocity \<Rightarrow>
          xr_add env (history_variable env inputFiles ''timeMonthly_avg_normalVelocity'')
            (history_variable env inputFiles ''timeMonthly_avg_normalGMBolusVelocity'')
      | NormalVelocity \<Rightarrow> history_variable env inputFiles ''timeMonthly_avg_normalVelocity'')"

text \<open>
  Lines 319--333 and 357--364: the expression that is computed, with the operations in
  the order and the grouping of the source (\<open>*\<close> associates to the left, the method calls
  bind before \<open>0.5*\<close>).
\<close>

definition xr_transport ::
  "'a run_env \<Rightarrow> velocity \<Rightarrow> string list \<Rightarrow> string \<Rightarrow> nat list \<Rightarrow> 'a" where
  "xr_transport env vel inputFiles restart transectIndices =
     (let dvEdge = mesh_variable env restart ''dvEdge'';
          h = xr_mul env (one_half env)
                (xr_sum env [''TWO'']
                   (isel_nCells env
                      (history_variable env inputFiles ''timeMonthly_avg_layerThickness'')
                      (minus_one env (mesh_variable env restart ''cellsOnEdge''))));
          edgeSign = mask_edge_signs env transectIndices
      in xr_mul env (m3ps_to_Sv env)
           (xr_sum env [''nEdges'', ''nVertLevels'']
              (xr_mul env (xr_mul env (xr_mul env edgeSign (velocity_of env vel inputFiles)) h)
                 dvEdge)))"

text \<open>
  Lines 289--296: the loop over the time indices of the existing output.  \<open>dsOut.year\<close>
  and \<open>dsOut.month\<close> raise \<open>AttributeError\<close> on a file that does not hold the variable,
  and the index raises \<open>IndexError\<close> beyond its length.  \<open>mask\<close> is the element-wise
  conjunction of the two comparisons against the arrays \<open>years\<close> and \<open>months\<close>; the
  first index with no match makes the output invalid and ends the loop.
\<close>

fun output_valid_loop ::
  "int list \<Rightarrow> int list \<Rightarrow> 'a transport_ds \<Rightarrow> nat list \<Rightarrow> exn + bool" where
  "output_valid_loop years months dsOut [] = Inr True"
| "output_valid_loop years months dsOut (inIndex # rest) =
     (case year dsOut of
        None \<Rightarrow> Inl AttributeError
      | Some ys \<Rightarrow>
          if length ys \<le> inIndex then Inl IndexError
          else
            (case month dsOut of
               None \<Rightarrow> Inl AttributeError
             | Some ms \<Rightarrow>
                 if length ms \<le> inIndex then Inl IndexError
                 else
                   (let mask = map2 (\<lambda>y' m'. ys ! inIndex = y' \<and> ms ! inIndex = m') years months
                    in if length (filter (\<lambda>b. b) mask) = 0 then Inr False
                       else output_valid_loop years months dsOut rest)))"


text \<open>Lines 346--351: the inner loop, which stops at the first transect of that name.\<close>

fun find_transect :: "string \<Rightarrow> nat \<Rightarrow> string list \<Rightarrow> nat option" where
  "find_transect t index [] = None"
| "find_transect t index (otherName # rest) =
     (if t = otherName then Some index else find_transect t (Suc index) rest)"

text \<open>Lines 344--354: the outer loop, with its two lists and its warnings.\<close>

fun transect_loop ::
  "string list \<Rightarrow> string list \<Rightarrow> nat list \<times> string list \<times> event list
     \<Rightarrow> nat list \<times> string list \<times> event list" where
  "transect_loop names [] acc = acc"
| "transect_loop names (t # ts) (transectIndices, outTransectNames, warnings) =
     (case find_transect t 0 names of
        Some index \<Rightarrow>
          transect_loop names ts (transectIndices @ [index], outTransectNames @ [t], warnings)
      | None \<Rightarrow>
          transect_loop names ts
            (transectIndices, outTransectNames,
             warnings @ [LogWarning (''transect '' @ t @ '' was not found in transect masks'')]))"

text \<open>
  Lines 302--375: the recomputation.  \<open>ThreadPool(n)\<close> raises \<open>ValueError\<close> for
  \<open>n < 1\<close>; the restart file name is the one \<open>setup_and_check\<close> stored, and
  \<open>None\<close>, the value \<open>__init__\<close> stores, cannot be opened (\<open>ValueError\<close>).  The
  dataset that is written holds the \<open>transport\<close> variable, its two attributes and the
  \<open>transectNames\<close> coordinate; the module assigns no \<open>year\<close> and no \<open>month\<close> to it.
\<close>

definition recompute ::
  "'a run_env \<Rightarrow> compute_transport_subtask \<Rightarrow> string list \<Rightarrow> string list \<Rightarrow> string
     \<Rightarrow> event list \<Rightarrow> 'a world \<Rightarrow> outcome \<times> 'a world" where
  "recompute env self inputFiles variableList outFileName evs w =
     (let evs1 = evs @ map OpenMpasDataset inputFiles
      in if daskThreads self < 1 then (Raised ValueError, w \<lparr> events := events w @ evs1 \<rparr>)
         else
           (case restartFileName self of
              None \<Rightarrow> (Raised ValueError, w \<lparr> events := events w @ evs1 \<rparr>)
            | Some restart \<Rightarrow>
                (let vel = select_velocity variableList;
                     (transectIndices, outTransectNames, warnings) =
                        transect_loop (mask_transectNames env) (transectsToPlot self) ([], [], []);
                     dsOut = \<lparr> Time = xr_Time env inputFiles,
                               year = None,
                               month = None,
                               transport = xr_transport env vel inputFiles restart transectIndices,
                               units = ''Sv'',
                               description = ''Transport through transects'',
                               transectNames = outTransectNames \<rparr>
                 in (Completed,
                     w \<lparr> files := (files w)(outFileName \<mapsto> dsOut),
                         events := events w @ evs1
                           @ [OpenDataset restart, OpenDataset (maskFileName env)]
                           @ warnings @ [LogInfoTransport, WriteNetcdf outFileName] \<rparr>))))"

definition ComputeTransportSubtask_run_task ::
  "'a run_env \<Rightarrow> config \<Rightarrow> compute_transport_subtask \<Rightarrow> 'a world \<Rightarrow> outcome \<times> 'a world" where
  "ComputeTransportSubtask_run_task env cfg self w =
     (let startDate = format_04d (startYear self) @ ''-01-01_00:00:00'';
          endDate = format_04d (endYear self) @ ''-12-31_23:59:59'';
          outputDirectory = output_directory cfg;
          outFileName = transport_file outputDirectory (startYear self) (endYear self);
          evs0 = [LogInfo ''Computing time series of transport through transects...'',
                  LogInfo ''  Load transport velocity data...'',
                  MakeDirs outputDirectory]
      in case readpath env startDate endDate of
           Inl e \<Rightarrow> (Raised e, w \<lparr> events := events w @ evs0 \<rparr>)
         | Inr found \<Rightarrow>
             (let inputFiles = sort found;
                  years = map (\<lambda>f. fst (files_year_month env f)) inputFiles;
                  months = map (\<lambda>f. snd (files_year_month env f)) inputFiles
              in case inputFiles of
                   [] \<Rightarrow> (Raised IndexError, w \<lparr> events := events w @ evs0 \<rparr>)
                 | first # _ \<Rightarrow>
                     (let (variableList, warning) = select_variables (variables env first);
                          evs1 = evs0 @ [OpenMpasDataset first] @ warning @ [PathExists outFileName]
                      in case files w outFileName of
                           None \<Rightarrow> recompute env self inputFiles variableList outFileName evs1 w
                         | Some dsOut \<Rightarrow>
                             (case output_valid_loop years months dsOut [0 ..< Time dsOut] of
                                Inl e \<Rightarrow>
                                  (Raised e,
                                   w \<lparr> events := events w @ evs1 @ [OpenMpasDataset outFileName] \<rparr>)
                              | Inr outputValid \<Rightarrow>
                                  if outputValid then
                                    (ReturnedEarly,
                                     w \<lparr> events := events w @ evs1
                                           @ [OpenMpasDataset outFileName,
                                              LogInfo ''  Time series exists -- Done.''] \<rparr>)
                                  else
                                    recompute env self inputFiles variableList outFileName
                                      (evs1 @ [OpenMpasDataset outFileName]) w))))"

subsection \<open>\<open>CombineTransportSubtask.run_task\<close>\<close>

text \<open>
  \<open>xarray.open_mfdataset(..., combine='nested', concat_dim='Time')\<close> is the
  parameter \<open>concat_Time\<close>, applied to the contents of the named files in the order of
  the names; a name with no file makes it raise.  \<open>startYears[0]\<close> and \<open>endYears[-1]\<close>
  raise \<open>IndexError\<close> on an empty list; \<open>zip\<close> stops at the shorter list.
\<close>

definition combine_in_files :: "string \<Rightarrow> int list \<Rightarrow> int list \<Rightarrow> string list" where
  "combine_in_files outputDirectory sys eys =
     map (\<lambda>(s, e). transport_file outputDirectory s e) (zip sys eys)"

definition CombineTransportSubtask_run_task ::
  "('a transport_ds list \<Rightarrow> 'a transport_ds) \<Rightarrow> config \<Rightarrow> combine_transport_subtask
     \<Rightarrow> 'a world \<Rightarrow> exn option \<times> 'a world" where
  "CombineTransportSubtask_run_task concat_Time cfg self w =
     (let outputDirectory = output_directory cfg
      in case startYears self of
           [] \<Rightarrow> (Some IndexError, w)
         | first # _ \<Rightarrow>
             if endYears self = [] then (Some IndexError, w)
             else
               (let outFileName = transport_file outputDirectory first (last (endYears self))
                in if files w outFileName \<noteq> None then
                     (None, w \<lparr> events := events w @ [PathExists outFileName] \<rparr>)
                   else
                     (let inFileNames =
                            combine_in_files outputDirectory (startYears self) (endYears self)
                      in case those (map (files w) inFileNames) of
                           None \<Rightarrow>
                             (Some IOError,
                              w \<lparr> events := events w
                                    @ [PathExists outFileName, OpenMfDataset inFileNames] \<rparr>)
                         | Some dss \<Rightarrow>
                             (None,
                              w \<lparr> files := (files w)(outFileName \<mapsto> concat_Time dss),
                                  events := events w
                                    @ [PathExists outFileName, OpenMfDataset inFileNames,
                                       WriteNetcdf outFileName] \<rparr>))))"

text \<open>The files a run writes, read off the events.\<close>

fun written_files :: "event list \<Rightarrow> string list" where
  "written_files [] = []"
| "written_files (WriteNetcdf f # es) = f # written_files es"
| "written_files (_ # es) = written_files es"

subsection \<open>\<open>PlotTransportSubtask.run_task\<close>\<close>







section \<open>Concrete inputs\<close>

text \<open>
  A configuration for the years 1 to 2 with two transects, the same configuration with
  \<open>transectsToPlot = ['all']\<close>, and a machine with eight CPUs whose transect file holds
  three features.
\<close>

definition example_config :: config where
  "example_config =
     \<lparr> getint = (\<lambda>section option.
          if option = ''startYear'' then 1
          else if option = ''endYear'' then 2
          else if option = ''parallelTaskCount'' then 4
          else if option = ''subprocessCount'' then 6
          else if option = ''daskThreads'' then 2
          else 1),
       getExpression = (\<lambda>section option. [''Drake Passage'', ''Tasmania-Ant'']),
       get_option = (\<lambda>section option. ''mainRun''),
       has_option = (\<lambda>section option. False),
       build_config_full_path = (\<lambda>section option. ''/out/timeseries'') \<rparr>"

definition all_config :: config where
  "all_config = example_config \<lparr> getExpression := (\<lambda>section option. [''all'']) \<rparr>"

definition example_externals :: externals where
  "example_externals =
     \<lparr> cpu_count = 8,
       get_region_mask = (\<lambda>cfg name. ''/masks/transportTransects.geojson''),
       get_feature_list = (\<lambda>name. [''Drake Passage'', ''Tasmania-Ant'', ''Bering Strait'']) \<rparr>"

definition example_parent :: analysis_task where
  "example_parent =
     \<lparr> taskName = ''timeSeriesTransport'', componentName = ''ocean'',
       tags = [''timeSeries'', ''transport''], subtaskName = None, runAfterTasks = [] \<rparr>"

text \<open>
  The compute subtask of year 1 after \<open>setup_and_check\<close>; one of its two transects is
  not in the mask file.
\<close>

definition example_compute :: compute_transport_subtask where
  "example_compute =
     (ComputeTransportSubtask_init 8 example_config example_parent 1 1 0
        [''Drake Passage'', ''Missing'']) \<lparr> restartFileName := Some ''restart.nc'' \<rparr>"

definition example_env :: "unit run_env" where
  "example_env =
     \<lparr> readpath = (\<lambda>startDate endDate. Inr [''hist.0001-02.nc'', ''hist.0001-01.nc'']),
       files_year_month = (\<lambda>f. if f = ''hist.0001-01.nc'' then (1, 1) else (1, 2)),
       variables = (\<lambda>f. [''timeMonthly_avg_layerThickness'', ''timeMonthly_avg_normalVelocity'']),
       maskFileName = ''masks.nc'',
       mask_transectNames = [''Tasmania-Ant'', ''Drake Passage''],
       history_variable = (\<lambda>fs name. ()),
       mesh_variable = (\<lambda>file name. ()),
       mask_edge_signs = (\<lambda>indices. ()),
       one_half = (),
       m3ps_to_Sv = (),
       minus_one = (\<lambda>x. ()),
       isel_nCells = (\<lambda>x i. ()),
       xr_add = (\<lambda>x y. ()),
       xr_mul = (\<lambda>x y. ()),
       xr_sum = (\<lambda>dims x. ()),
       xr_Time = length \<rparr>"



text \<open>
  An environment whose arrays are the expressions that were formed, so that the value
  written is the formula itself; its history files hold the GM bolus velocity.
\<close>

datatype expr =
    Float string
  | Variable string
  | EdgeSigns "nat list"
  | MinusOne expr
  | Isel expr expr
  | Add expr expr
  | Mul expr expr
  | Sum "string list" expr

definition formula_env :: "expr run_env" where
  "formula_env =
     \<lparr> readpath = (\<lambda>startDate endDate. Inr [''hist.0001-01.nc'']),
       files_year_month = (\<lambda>f. (1, 1)),
       variables = (\<lambda>f. [''timeMonthly_avg_layerThickness'', ''timeMonthly_avg_normalVelocity'',
                          ''timeMonthly_avg_normalGMBolusVelocity'']),
       maskFileName = ''masks.nc'',
       mask_transectNames = [''Tasmania-Ant'', ''Drake Passage''],
       history_variable = (\<lambda>fs name. Variable name),
       mesh_variable = (\<lambda>file name. Variable name),
       mask_edge_signs = EdgeSigns,
       one_half = Float ''0.5'',
       m3ps_to_Sv = Float ''m3ps_to_Sv'',
       minus_one = MinusOne,
       isel_nCells = Isel,
       xr_add = Add,
       xr_mul = Mul,
       xr_sum = Sum,
       xr_Time = length \<rparr>"

definition formula_world :: "expr world" where
  "formula_world = \<lparr> files = Map.empty, events = [] \<rparr>"

text \<open>Output files that hold the year and the month of their time indices.\<close>

definition january_output :: "unit transport_ds" where
  "january_output =
     \<lparr> Time = 1, year = Some [1], month = Some [1], transport = (), units = ''Sv'',
       description = ''Transport through transects'', transectNames = [''Drake Passage''] \<rparr>"

definition february_output :: "unit transport_ds" where
  "february_output = january_output \<lparr> year := Some [2], month := Some [2] \<rparr>"



definition fresh_world :: "unit world" where
  "fresh_world = \<lparr> files = Map.empty, events = [] \<rparr>"

text \<open>The combine subtask of the years 1 and 2, and a world with the two per-year files.\<close>

definition example_combine :: combine_transport_subtask where
  "example_combine = CombineTransportSubtask_init example_parent [1, 2] [1, 2]"

definition example_concat :: "unit transport_ds list \<Rightarrow> unit transport_ds" where
  "example_concat dss = january_output \<lparr> Time := sum_list (map Time dss) \<rparr>"

definition per_year_world :: "unit world" where
  "per_year_world =
     \<lparr> files = [transport_file (output_directory example_config) 1 1 \<mapsto> january_output,
                transport_file (output_directory example_config) 2 2 \<mapsto> february_output],
       events = [] \<rparr>"


section \<open>Properties\<close>

text \<open>
  C6.  \<open>ComputeTransportSubtask.__init__\<close> sets \<open>subprocessCount\<close> to the minimum of the
  \<open>execute/parallelTaskCount\<close> option and the task's \<open>subprocessCount\<close> option, and
  \<open>daskThreads\<close> to the minimum of the machine's CPU count and the task's
  \<open>daskThreads\<close> option; so \<open>subprocessCount\<close> never exceeds \<open>parallelTaskCount\<close> and
  \<open>daskThreads\<close> never exceeds the CPU count.
\<close>

theorem C6_subprocessCount_daskThreads:
  "subprocessCount (ComputeTransportSubtask_init ncpu cfg parentTask sy ey masks toPlot)
       = min (getint cfg ''execute'' ''parallelTaskCount'')
             (getint cfg (taskName parentTask) ''subprocessCount'')
   \<and> daskThreads (ComputeTransportSubtask_init ncpu cfg parentTask sy ey masks toPlot)
       = min ncpu (getint cfg (taskName parentTask) ''daskThreads'')
   \<and> subprocessCount (ComputeTransportSubtask_init ncpu cfg parentTask sy ey masks toPlot)
       \<le> getint cfg ''execute'' ''parallelTaskCount''
   \<and> daskThreads (ComputeTransportSubtask_init ncpu cfg parentTask sy ey masks toPlot)
       \<le> ncpu"
  by (simp add: ComputeTransportSubtask_init_def Let_def)

subsection \<open>Loops in closed form\<close>


lemma find_transect_eq:
  "find_transect t i names =
     (if t \<in> set names then Some (i + length (takeWhile (\<lambda>n. n \<noteq> t) names)) else None)"
  by (induction names arbitrary: i) auto

lemma transect_loop_eq:
  "transect_loop names ts (idx, out, ws) =
     (idx @ map (\<lambda>t. length (takeWhile (\<lambda>n. n \<noteq> t) names)) (filter (\<lambda>t. t \<in> set names) ts),
      out @ filter (\<lambda>t. t \<in> set names) ts,
      ws @ map (\<lambda>t. LogWarning (''transect '' @ t @ '' was not found in transect masks''))
             (filter (\<lambda>t. t \<notin> set names) ts))"
  by (induction ts arbitrary: idx out ws) (auto simp: find_transect_eq)

lemma first_index:
  assumes "t \<in> set names"
  shows "length (takeWhile (\<lambda>n. n \<noteq> t) names) < length names
       \<and> names ! length (takeWhile (\<lambda>n. n \<noteq> t) names) = t
       \<and> t \<notin> set (take (length (takeWhile (\<lambda>n. n \<noteq> t) names)) names)"
  using assms
proof (induction names)
  case Nil
  then show ?case by simp
next
  case (Cons a names)
  then show ?case by (cases "a = t") auto
qed

lemma sort_Nil_iff: "(sort xs = []) = (xs = [])"
  by (metis length_0_conv length_sort)

lemma those_map_present:
  "(\<forall>f \<in> set fs. m f \<noteq> None) \<Longrightarrow> those (map m fs) = Some (map (\<lambda>f. the (m f)) fs)"
  by (induction fs) auto

subsection \<open>\<open>ComputeTransportSubtask.run_task\<close>\<close>





text \<open>The run from the validity check on, when at least one history file was found.\<close>

lemma run_task_reached:
  assumes rp: "readpath env (format_04d (startYear self) @ ''-01-01_00:00:00'')
                 (format_04d (endYear self) @ ''-12-31_23:59:59'') = Inr found"
      and ne: "found \<noteq> []"
  shows "ComputeTransportSubtask_run_task env cfg self w =
     (let outFileName = transport_file (output_directory cfg) (startYear self) (endYear self);
          inputFiles = sort found;
          sel = select_variables (variables env (hd inputFiles));
          evs1 = [LogInfo ''Computing time series of transport through transects...'',
                  LogInfo ''  Load transport velocity data...'',
                  MakeDirs (output_directory cfg), OpenMpasDataset (hd inputFiles)]
                 @ snd sel @ [PathExists outFileName]
      in case files w outFileName of
           None \<Rightarrow> recompute env self inputFiles (fst sel) outFileName evs1 w
         | Some dsOut \<Rightarrow>
             (case output_valid_loop (map (\<lambda>f. fst (files_year_month env f)) inputFiles)
                     (map (\<lambda>f. snd (files_year_month env f)) inputFiles) dsOut [0 ..< Time dsOut] of
                Inl e \<Rightarrow> (Raised e, w \<lparr> events := events w @ evs1 @ [OpenMpasDataset outFileName] \<rparr>)
              | Inr outputValid \<Rightarrow>
                  if outputValid then
                    (ReturnedEarly,
                     w \<lparr> events := events w @ evs1
                           @ [OpenMpasDataset outFileName,
                              LogInfo ''  Time series exists -- Done.''] \<rparr>)
                  else recompute env self inputFiles (fst sel) outFileName
                         (evs1 @ [OpenMpasDataset outFileName]) w))"
proof -
  from ne obtain first rest where s: "sort found = first # rest"
    by (cases "sort found") (simp_all add: sort_Nil_iff)
  show ?thesis
    unfolding ComputeTransportSubtask_run_task_def Let_def rp sum.case s list.case list.sel
    by (simp add: split_beta split: option.splits sum.splits del: output_valid_loop.simps)
qed


lemma recompute_Completed:
  assumes "recompute env self ins vl out evs w = (Completed, w')"
  shows "\<exists>restart. restartFileName self = Some restart
       \<and> files w' out = Some \<lparr> Time = xr_Time env ins, year = None, month = None,
             transport = xr_transport env (select_velocity vl) ins restart
               (map (\<lambda>t. length (takeWhile (\<lambda>n. n \<noteq> t) (mask_transectNames env)))
                  (filter (\<lambda>t. t \<in> set (mask_transectNames env)) (transectsToPlot self))),
             units = ''Sv'', description = ''Transport through transects'',
             transectNames = filter (\<lambda>t. t \<in> set (mask_transectNames env)) (transectsToPlot self) \<rparr>
       \<and> (\<forall>f. f \<noteq> out \<longrightarrow> files w' f = files w f)
       \<and> (\<forall>t \<in> set (transectsToPlot self). t \<notin> set (mask_transectNames env) \<longrightarrow>
             LogWarning (''transect '' @ t @ '' was not found in transect masks'') \<in> set (events w'))"
  using assms
  by (auto simp add: recompute_def Let_def transect_loop_eq split: if_splits option.splits)

lemma recompute_outcome:
  "fst (recompute env (self \<lparr> transectsToPlot := ts \<rparr>) ins vl out evs w)
     = fst (recompute env self ins vl out evs w)"
  by (simp add: recompute_def Let_def split_beta split: option.splits)

text \<open>A run that completes went through the recomputation, on at least one history file.\<close>

lemma run_task_Completed:
  assumes rp: "readpath env (format_04d (startYear self) @ ''-01-01_00:00:00'')
                 (format_04d (endYear self) @ ''-12-31_23:59:59'') = Inr found"
      and c: "ComputeTransportSubtask_run_task env cfg self w = (Completed, w')"
  shows "found \<noteq> []
       \<and> (\<exists>evs. recompute env self (sort found)
                  (fst (select_variables (variables env (hd (sort found)))))
                  (transport_file (output_directory cfg) (startYear self) (endYear self)) evs w
                = (Completed, w'))"
proof -
  have ne: "found \<noteq> []"
  proof
    assume "found = []"
    with rp c show False
      by (simp add: ComputeTransportSubtask_run_task_def Let_def)
  qed
  from c show ?thesis
    unfolding run_task_reached [OF rp ne] Let_def using ne
    by (auto split: option.splits sum.splits if_splits)
qed

lemma example_out_file:
  "transport_file (output_directory example_config) (startYear example_compute)
     (endYear example_compute) = ''/out/timeseries/transport//transport_0001-0001.nc''"
  by code_simp


text \<open>
  The file that \<open>run_task\<close> writes holds no \<open>year\<close> and no \<open>month\<close>: a second run on it,
  when the time series has at least one entry, ends in the \<open>AttributeError\<close> of
  \<open>dsOut.year\<close> (line 292), neither returning early nor recomputing.
\<close>

lemma second_run_on_written_output:
  assumes rp: "readpath env (format_04d (startYear self) @ ''-01-01_00:00:00'')
                 (format_04d (endYear self) @ ''-12-31_23:59:59'') = Inr found"
      and c: "ComputeTransportSubtask_run_task env cfg self w = (Completed, w')"
      and t: "0 < xr_Time env (sort found)"
  shows "fst (ComputeTransportSubtask_run_task env cfg self w') = Raised AttributeError"
proof -
  let ?out = "transport_file (output_directory cfg) (startYear self) (endYear self)"
  from run_task_Completed [OF rp c] obtain evs where ne: "found \<noteq> []"
    and r: "recompute env self (sort found)
              (fst (select_variables (variables env (hd (sort found))))) ?out evs w = (Completed, w')"
    by blast
  from recompute_Completed [OF r] obtain ds where f: "files w' ?out = Some ds"
    and d: "Time ds = xr_Time env (sort found)" "year ds = None"
    by auto
  from t d have "[0 ..< Time ds] = 0 # [Suc 0 ..< Time ds]"
    by (simp add: upt_conv_Cons)
  then have "output_valid_loop ys ms ds [0 ..< Time ds] = Inl AttributeError" for ys ms
    using d by simp
  then show ?thesis
    by (simp add: run_task_reached [OF rp ne] Let_def f)
qed







text \<open>
  C10.  When \<open>run_task\<close> recomputes, the \<open>transectNames\<close> coordinate it writes is the
  ordered subsequence of \<open>transectsToPlot\<close> of exactly the names that occur in the mask
  file's \<open>transectNames\<close>, and the index selected for each is that of its first occurrence
  there; a requested transect that is not in the mask file is skipped with a warning, and
  whether the run fails does not depend on the requested transects at all.
\<close>

theorem C10_written_transect_names:
  "fst (ComputeTransportSubtask_run_task env cfg (self \<lparr> transectsToPlot := ts \<rparr>) w)
     = fst (ComputeTransportSubtask_run_task env cfg self w)
   \<and> (\<forall>w'. ComputeTransportSubtask_run_task env cfg self w = (Completed, w') \<longrightarrow>
        (\<exists>dsOut. files w' (transport_file (output_directory cfg) (startYear self) (endYear self))
                    = Some dsOut
           \<and> transectNames dsOut
               = filter (\<lambda>t. t \<in> set (mask_transectNames env)) (transectsToPlot self)
           \<and> (\<exists>vel inputFiles restart. transport dsOut
                 = xr_transport env vel inputFiles restart
                     (map (\<lambda>t. length (takeWhile (\<lambda>n. n \<noteq> t) (mask_transectNames env)))
                        (transectNames dsOut)))
           \<and> (\<forall>t \<in> set (transectNames dsOut).
                 mask_transectNames env ! length (takeWhile (\<lambda>n. n \<noteq> t) (mask_transectNames env)) = t
                 \<and> t \<notin> set (take (length (takeWhile (\<lambda>n. n \<noteq> t) (mask_transectNames env)))
                               (mask_transectNames env)))
           \<and> (\<forall>t \<in> set (transectsToPlot self). t \<notin> set (mask_transectNames env) \<longrightarrow>
                 LogWarning (''transect '' @ t @ '' was not found in transect masks'')
                   \<in> set (events w'))))"
proof (intro conjI allI impI)
  show "fst (ComputeTransportSubtask_run_task env cfg (self \<lparr> transectsToPlot := ts \<rparr>) w)
          = fst (ComputeTransportSubtask_run_task env cfg self w)"
    unfolding ComputeTransportSubtask_run_task_def
    by (simp add: Let_def split_beta recompute_outcome
          split: sum.splits list.splits option.splits del: output_valid_loop.simps)
next
  fix w'
  assume c: "ComputeTransportSubtask_run_task env cfg self w = (Completed, w')"
  then obtain ins vl evs where
    "recompute env self ins vl
       (transport_file (output_directory cfg) (startYear self) (endYear self)) evs w = (Completed, w')"
    unfolding ComputeTransportSubtask_run_task_def
    by (auto simp add: Let_def split_beta split: sum.splits list.splits option.splits if_splits
          simp del: output_valid_loop.simps)
  from recompute_Completed [OF this] obtain restart dsOut where
    f: "files w' (transport_file (output_directory cfg) (startYear self) (endYear self)) = Some dsOut"
    and tn: "transectNames dsOut
               = filter (\<lambda>t. t \<in> set (mask_transectNames env)) (transectsToPlot self)"
    and tr: "transport dsOut = xr_transport env (select_velocity vl) ins restart
               (map (\<lambda>t. length (takeWhile (\<lambda>n. n \<noteq> t) (mask_transectNames env)))
                  (transectNames dsOut))"
    and wn: "\<forall>t \<in> set (transectsToPlot self). t \<notin> set (mask_transectNames env) \<longrightarrow>
               LogWarning (''transect '' @ t @ '' was not found in transect masks'') \<in> set (events w')"
    by auto
  have fi: "\<forall>t \<in> set (transectNames dsOut).
              mask_transectNames env ! length (takeWhile (\<lambda>n. n \<noteq> t) (mask_transectNames env)) = t
              \<and> t \<notin> set (take (length (takeWhile (\<lambda>n. n \<noteq> t) (mask_transectNames env)))
                            (mask_transectNames env))"
    using first_index [of _ "mask_transectNames env"] by (auto simp add: tn)
  from f tn tr wn fi
  show "\<exists>dsOut. files w' (transport_file (output_directory cfg) (startYear self) (endYear self))
                    = Some dsOut
           \<and> transectNames dsOut
               = filter (\<lambda>t. t \<in> set (mask_transectNames env)) (transectsToPlot self)
           \<and> (\<exists>vel inputFiles restart. transport dsOut
                 = xr_transport env vel inputFiles restart
                     (map (\<lambda>t. length (takeWhile (\<lambda>n. n \<noteq> t) (mask_transectNames env)))
                        (transectNames dsOut)))
           \<and> (\<forall>t \<in> set (transectNames dsOut).
                 mask_transectNames env ! length (takeWhile (\<lambda>n. n \<noteq> t) (mask_transectNames env)) = t
                 \<and> t \<notin> set (take (length (takeWhile (\<lambda>n. n \<noteq> t) (mask_transectNames env)))
                               (mask_transectNames env)))
           \<and> (\<forall>t \<in> set (transectsToPlot self). t \<notin> set (mask_transectNames env) \<longrightarrow>
                 LogWarning (''transect '' @ t @ '' was not found in transect masks'')
                   \<in> set (events w'))"
    by blast
qed

lemma example_run_completes:
  "fst (ComputeTransportSubtask_run_task example_env example_config example_compute fresh_world)
     = Completed"
  by code_simp

theorem C10_written_transect_names_witness:
  "\<exists>w' dsOut. ComputeTransportSubtask_run_task example_env example_config example_compute fresh_world
       = (Completed, w')
     \<and> files w' ''/out/timeseries/transport//transport_0001-0001.nc'' = Some dsOut
     \<and> transectNames dsOut = [''Drake Passage'']
     \<and> LogWarning ''transect Missing was not found in transect masks'' \<in> set (events w')"
proof -
  obtain w' where c: "ComputeTransportSubtask_run_task example_env example_config example_compute
                        fresh_world = (Completed, w')"
    using example_run_completes by (metis prod.collapse)
  have tp: "transectsToPlot example_compute = [''Drake Passage'', ''Missing'']"
    by (simp add: example_compute_def ComputeTransportSubtask_init_def Let_def)
  have mt: "mask_transectNames example_env = [''Tasmania-Ant'', ''Drake Passage'']"
    by (simp add: example_env_def)
  from C10_written_transect_names [where env = example_env and cfg = example_config
      and self = example_compute and w = fresh_world and ts = "[]"] c
  show ?thesis
    by (auto simp add: example_out_file tp mt)
qed

text \<open>
  C5.  When \<open>run_task\<close> recomputes, the \<open>transport\<close> variable it writes is
  \<open>constants.m3ps_to_Sv\<close> times the sum over \<open>nEdges\<close> and \<open>nVertLevels\<close> of
  \<open>edgeSign * vel * h * dvEdge\<close>, where \<open>edgeSign\<close> is that of the transects that are
  written, \<open>h\<close> is one half times the sum over \<open>TWO\<close> of the layer thickness selected at
  \<open>cellsOnEdge - 1\<close>, and \<open>vel\<close> is the normal transport velocity when the (first)
  history file holds it, otherwise the sum of the normal velocity and the GM bolus
  velocity when it holds the latter, otherwise the normal velocity alone; the variable
  carries the attribute \<open>units = 'Sv'\<close>.  The statement is about the operations the module
  composes, whatever xarray computes for each of them.
\<close>

theorem C5_transport_formula:
  assumes rp: "readpath env (format_04d (startYear self) @ ''-01-01_00:00:00'')
                 (format_04d (endYear self) @ ''-12-31_23:59:59'') = Inr found"
      and c: "ComputeTransportSubtask_run_task env cfg self w = (Completed, w')"
  shows "\<exists>dsOut restart.
           restartFileName self = Some restart
         \<and> files w' (transport_file (output_directory cfg) (startYear self) (endYear self))
             = Some dsOut
         \<and> units dsOut = ''Sv''
         \<and> transectNames dsOut
             = filter (\<lambda>t. t \<in> set (mask_transectNames env)) (transectsToPlot self)
         \<and> transport dsOut
             = xr_mul env (m3ps_to_Sv env)
                 (xr_sum env [''nEdges'', ''nVertLevels'']
                    (xr_mul env
                       (xr_mul env
                          (xr_mul env
                             (mask_edge_signs env
                                (map (\<lambda>t. length (takeWhile (\<lambda>n. n \<noteq> t) (mask_transectNames env)))
                                   (transectNames dsOut)))
                             (if ''timeMonthly_avg_normalTransportVelocity''
                                   \<in> set (variables env (hd (sort found)))
                              then history_variable env (sort found)
                                     ''timeMonthly_avg_normalTransportVelocity''
                              else if ''timeMonthly_avg_normalGMBolusVelocity''
                                        \<in> set (variables env (hd (sort found)))
                              then xr_add env
                                     (history_variable env (sort found)
                                        ''timeMonthly_avg_normalVelocity'')
                                     (history_variable env (sort found)
                                        ''timeMonthly_avg_normalGMBolusVelocity'')
                              else history_variable env (sort found)
                                     ''timeMonthly_avg_normalVelocity''))
                          (xr_mul env (one_half env)
                             (xr_sum env [''TWO'']
                                (isel_nCells env
                                   (history_variable env (sort found)
                                      ''timeMonthly_avg_layerThickness'')
                                   (minus_one env (mesh_variable env restart ''cellsOnEdge''))))))
                       (mesh_variable env restart ''dvEdge'')))"
proof -
  let ?out = "transport_file (output_directory cfg) (startYear self) (endYear self)"
  let ?vl = "fst (select_variables (variables env (hd (sort found))))"
  from run_task_Completed [OF rp c] obtain evs where
    r: "recompute env self (sort found) ?vl ?out evs w = (Completed, w')"
    by blast
  from recompute_Completed [OF r] obtain restart where rs: "restartFileName self = Some restart"
    and f: "files w' ?out = Some \<lparr> Time = xr_Time env (sort found), year = None, month = None,
             transport = xr_transport env (select_velocity ?vl) (sort found) restart
               (map (\<lambda>t. length (takeWhile (\<lambda>n. n \<noteq> t) (mask_transectNames env)))
                  (filter (\<lambda>t. t \<in> set (mask_transectNames env)) (transectsToPlot self))),
             units = ''Sv'', description = ''Transport through transects'',
             transectNames = filter (\<lambda>t. t \<in> set (mask_transectNames env)) (transectsToPlot self) \<rparr>"
    by blast
  have v: "velocity_of env (select_velocity ?vl) (sort found)
             = (if ''timeMonthly_avg_normalTransportVelocity'' \<in> set (variables env (hd (sort found)))
                then history_variable env (sort found) ''timeMonthly_avg_normalTransportVelocity''
                else if ''timeMonthly_avg_normalGMBolusVelocity''
                          \<in> set (variables env (hd (sort found)))
                then xr_add env
                       (history_variable env (sort found) ''timeMonthly_avg_normalVelocity'')
                       (history_variable env (sort found) ''timeMonthly_avg_normalGMBolusVelocity'')
                else history_variable env (sort found) ''timeMonthly_avg_normalVelocity'')"
    by (simp add: velocity_of_def select_velocity_def select_variables_def)
  show ?thesis
    using rs f by (simp add: xr_transport_def Let_def v)
qed

lemma formula_run_completes:
  "fst (ComputeTransportSubtask_run_task formula_env example_config example_compute formula_world)
     = Completed"
  by code_simp

theorem C5_transport_formula_witness:
  "\<exists>w' dsOut. ComputeTransportSubtask_run_task formula_env example_config example_compute
                 formula_world = (Completed, w')
     \<and> files w' ''/out/timeseries/transport//transport_0001-0001.nc'' = Some dsOut
     \<and> units dsOut = ''Sv''
     \<and> transport dsOut
         = Mul (Float ''m3ps_to_Sv'')
             (Sum [''nEdges'', ''nVertLevels'']
                (Mul (Mul (Mul (EdgeSigns [1])
                             (Add (Variable ''timeMonthly_avg_normalVelocity'')
                                  (Variable ''timeMonthly_avg_normalGMBolusVelocity'')))
                          (Mul (Float ''0.5'')
                             (Sum [''TWO'']
                                (Isel (Variable ''timeMonthly_avg_layerThickness'')
                                      (MinusOne (Variable ''cellsOnEdge''))))))
                     (Variable ''dvEdge'')))"
proof -
  obtain w' where c: "ComputeTransportSubtask_run_task formula_env example_config example_compute
                        formula_world = (Completed, w')"
    using formula_run_completes by (metis prod.collapse)
  have rp: "readpath formula_env (format_04d (startYear example_compute) @ ''-01-01_00:00:00'')
              (format_04d (endYear example_compute) @ ''-12-31_23:59:59'')
              = Inr [''hist.0001-01.nc'']"
    by (simp add: formula_env_def)
  have tp: "transectsToPlot example_compute = [''Drake Passage'', ''Missing'']"
    by (simp add: example_compute_def ComputeTransportSubtask_init_def Let_def)
  from C5_transport_formula [OF rp c] obtain dsOut restart where
    "files w' (transport_file (output_directory example_config) (startYear example_compute)
                 (endYear example_compute)) = Some dsOut"
    and "units dsOut = ''Sv''"
    and "transectNames dsOut
           = filter (\<lambda>t. t \<in> set (mask_transectNames formula_env)) (transectsToPlot example_compute)"
    and "transport dsOut
             = xr_mul formula_env (m3ps_to_Sv formula_env)
                 (xr_sum formula_env [''nEdges'', ''nVertLevels'']
                    (xr_mul formula_env
                       (xr_mul formula_env
                          (xr_mul formula_env
                             (mask_edge_signs formula_env
                                (map (\<lambda>t. length (takeWhile (\<lambda>n. n \<noteq> t)
                                                     (mask_transectNames formula_env)))
                                   (transectNames dsOut)))
                             (if ''timeMonthly_avg_normalTransportVelocity''
                                   \<in> set (variables formula_env (hd (sort [''hist.0001-01.nc''])))
                              then history_variable formula_env (sort [''hist.0001-01.nc''])
                                     ''timeMonthly_avg_normalTransportVelocity''
                              else if ''timeMonthly_avg_normalGMBolusVelocity''
                                        \<in> set (variables formula_env (hd (sort [''hist.0001-01.nc''])))
                              then xr_add formula_env
                                     (history_variable formula_env (sort [''hist.0001-01.nc''])
                                        ''timeMonthly_avg_normalVelocity'')
                                     (history_variable formula_env (sort [''hist.0001-01.nc''])
                                        ''timeMonthly_avg_normalGMBolusVelocity'')
                              else history_variable formula_env (sort [''hist.0001-01.nc''])
                                     ''timeMonthly_avg_normalVelocity''))
                          (xr_mul formula_env (one_half formula_env)
                             (xr_sum formula_env [''TWO'']
                                (isel_nCells formula_env
                                   (history_variable formula_env (sort [''hist.0001-01.nc''])
                                      ''timeMonthly_avg_layerThickness'')
                                   (minus_one formula_env
                                      (mesh_variable formula_env restart ''cellsOnEdge''))))))
                       (mesh_variable formula_env restart ''dvEdge'')))"
    by blast
  with c show ?thesis
    by (simp add: example_out_file tp formula_env_def)
qed

theorem C6_subprocessCount_daskThreads_witness:
  "subprocessCount (ComputeTransportSubtask_init 8 example_config example_parent 1 1 0 []) = 4
   \<and> daskThreads (ComputeTransportSubtask_init 8 example_config example_parent 1 1 0 []) = 2"
  using C6_subprocessCount_daskThreads [of 8 example_config example_parent 1 1 0 "[]"]
  by (simp add: example_config_def example_parent_def)

subsection \<open>\<open>PlotTransportSubtask\<close>\<close>









subsection \<open>\<open>CombineTransportSubtask.run_task\<close>\<close>

text \<open>
  C3.  With \<open>startYears\<close> and \<open>endYears\<close> not empty (the claim names \<open>startYears[0]\<close> and
  \<open>endYears[-1]\<close>): when the combined file \<open>transport_{startYears[0]}-{endYears[-1]}.nc\<close>
  exists, \<open>run_task\<close> only tests for it, reads nothing and writes nothing; when it does
  not exist and the per-year files do, \<open>run_task\<close> writes it, and its content is the
  concatenation along \<open>Time\<close> of the per-year files \<open>transport_{startYear}-{endYear}.nc\<close>
  in the order of the two lists.
\<close>

theorem C3_combine_writes_iff_absent:
  assumes s: "startYears self \<noteq> []" and e: "endYears self \<noteq> []"
  shows "(files w (transport_file (output_directory cfg) (hd (startYears self)) (last (endYears self)))
            \<noteq> None \<longrightarrow>
          CombineTransportSubtask_run_task concat_Time cfg self w
            = (None, w \<lparr> events := events w @ [PathExists
                 (transport_file (output_directory cfg) (hd (startYears self)) (last (endYears self)))] \<rparr>))
       \<and> (files w (transport_file (output_directory cfg) (hd (startYears self)) (last (endYears self)))
            = None
          \<and> (\<forall>f \<in> set (map (\<lambda>(s, e). transport_file (output_directory cfg) s e)
                          (zip (startYears self) (endYears self))). files w f \<noteq> None) \<longrightarrow>
          CombineTransportSubtask_run_task concat_Time cfg self w
            = (None,
               w \<lparr> files := (files w)
                     (transport_file (output_directory cfg) (hd (startYears self)) (last (endYears self))
                        \<mapsto> concat_Time (map (\<lambda>f. the (files w f))
                             (map (\<lambda>(s, e). transport_file (output_directory cfg) s e)
                                (zip (startYears self) (endYears self))))),
                   events := events w @
                     [PathExists (transport_file (output_directory cfg) (hd (startYears self))
                                    (last (endYears self))),
                      OpenMfDataset (map (\<lambda>(s, e). transport_file (output_directory cfg) s e)
                                       (zip (startYears self) (endYears self))),
                      WriteNetcdf (transport_file (output_directory cfg) (hd (startYears self))
                                     (last (endYears self)))] \<rparr>))
       \<and> (written_files (events (snd (CombineTransportSubtask_run_task concat_Time cfg self
                                        (w \<lparr> events := [] \<rparr>)))) \<noteq> [] \<longrightarrow>
          files w (transport_file (output_directory cfg) (hd (startYears self)) (last (endYears self)))
            = None)"
proof -
  from s obtain first rest where f: "startYears self = first # rest"
    by (cases "startYears self") simp_all
  show ?thesis
    using e those_map_present [of "map (\<lambda>(s, e). transport_file (output_directory cfg) s e)
             (zip (startYears self) (endYears self))" "files w"]
    unfolding CombineTransportSubtask_run_task_def combine_in_files_def
    by (auto simp add: Let_def f split: option.splits simp del: those.simps)
qed

lemma example_file_names:
  "transport_file (output_directory example_config) 1 1
     = ''/out/timeseries/transport//transport_0001-0001.nc''"
  "transport_file (output_directory example_config) 2 2
     = ''/out/timeseries/transport//transport_0002-0002.nc''"
  "transport_file (output_directory example_config) 1 2
     = ''/out/timeseries/transport//transport_0001-0002.nc''"
  by code_simp+

lemma example_combine_files:
  "transport_file (output_directory example_config) (hd (startYears example_combine))
      (last (endYears example_combine)) = ''/out/timeseries/transport//transport_0001-0002.nc''"
  "map (\<lambda>(s, e). transport_file (output_directory example_config) s e)
      (zip (startYears example_combine) (endYears example_combine))
     = [''/out/timeseries/transport//transport_0001-0001.nc'',
        ''/out/timeseries/transport//transport_0002-0002.nc'']"
  "files per_year_world = [''/out/timeseries/transport//transport_0001-0001.nc'' \<mapsto> january_output,
                           ''/out/timeseries/transport//transport_0002-0002.nc'' \<mapsto> february_output]"
  by (simp_all add: example_combine_def CombineTransportSubtask_init_def per_year_world_def
        example_file_names)

theorem C3_combine_writes_iff_absent_witness:
  "files (snd (CombineTransportSubtask_run_task example_concat example_config example_combine
                 per_year_world)) ''/out/timeseries/transport//transport_0001-0002.nc''
     = Some (example_concat [january_output, february_output])
   \<and> written_files (events (snd (CombineTransportSubtask_run_task example_concat example_config
                 example_combine per_year_world)))
     = [''/out/timeseries/transport//transport_0001-0002.nc'']
   \<and> CombineTransportSubtask_run_task example_concat example_config example_combine
        (per_year_world \<lparr> files := (files per_year_world)
            (''/out/timeseries/transport//transport_0001-0002.nc'' \<mapsto> january_output) \<rparr>)
     = (None, per_year_world \<lparr> files := (files per_year_world)
            (''/out/timeseries/transport//transport_0001-0002.nc'' \<mapsto> january_output),
          events := [PathExists ''/out/timeseries/transport//transport_0001-0002.nc''] \<rparr>)"
proof -
  have s: "startYears example_combine \<noteq> []" and e: "endYears example_combine \<noteq> []"
    by (simp_all add: example_combine_def CombineTransportSubtask_init_def)
  have ev: "events per_year_world = []"
    by (simp add: per_year_world_def)
  from C3_combine_writes_iff_absent [OF s e, of per_year_world example_config example_concat]
       C3_combine_writes_iff_absent [OF s e, of "per_year_world \<lparr> files := (files per_year_world)
            (''/out/timeseries/transport//transport_0001-0002.nc'' \<mapsto> january_output) \<rparr>"
            example_config example_concat]
  show ?thesis
    by (simp add: example_combine_files ev)
qed

subsection \<open>\<open>ComputeTransportSubtask.setup_and_check\<close>\<close>

text \<open>
  C9, as the claim states it, fails on two runs: when the base class's setup raises
  \<open>IOError\<close>, \<open>setup_and_check\<close> raises \<open>IOError\<close> although a restart file is there; and
  when \<open>readpath\<close> returns an empty list, the index \<open>[0]\<close> raises \<open>IndexError\<close>, which
  \<open>except ValueError\<close> does not catch, so there is no restart file and no \<open>IOError\<close>.
\<close>

theorem C9_other_failures_counterexample:
  "ComputeTransportSubtask_setup_and_check (Inl IOError) (Inr ()) (Inr [''restart.0002.nc''])
       example_compute = Inl IOError
   \<and> ComputeTransportSubtask_setup_and_check (Inr ()) (Inr ()) (Inr []) example_compute
       = Inl IndexError"
  by (simp add: ComputeTransportSubtask_setup_and_check_def)

text \<open>
  C9, amended.  \<open>setup_and_check\<close> raises \<open>IOError\<close> exactly when the base class's setup
  raises it, or that setup returns and \<open>check_analysis_enabled\<close> raises it, or both
  return and \<open>runStreams.readpath('restart')\<close> raises \<open>ValueError\<close> (no restart file: the
  exception is converted) or raises \<open>IOError\<close> itself.  It returns exactly when both
  return and \<open>readpath\<close> returns a list that is not empty, and then it has stored the
  first path as \<open>restartFileName\<close>; on an empty list it raises \<open>IndexError\<close>.  It has no
  check of \<open>config_land_ice_flux_mode\<close>: it raises \<open>ValueError\<close> exactly when the base
  class's setup or \<open>check_analysis_enabled\<close> does.
\<close>

theorem C9_setup_and_check:
  "((ComputeTransportSubtask_setup_and_check base enabled restart self = Inl IOError)
      = (base = Inl IOError
         \<or> (base = Inr () \<and> enabled = Inl IOError)
         \<or> (base = Inr () \<and> enabled = Inr ()
              \<and> (restart = Inl ValueError \<or> restart = Inl IOError))))
   \<and> ((ComputeTransportSubtask_setup_and_check base enabled restart self = Inr s)
      = (base = Inr () \<and> enabled = Inr ()
         \<and> (\<exists>p ps. restart = Inr (p # ps) \<and> s = self \<lparr> restartFileName := Some p \<rparr>)))
   \<and> ((ComputeTransportSubtask_setup_and_check base enabled restart self = Inl IndexError)
      = (base = Inl IndexError
         \<or> (base = Inr () \<and> enabled = Inl IndexError)
         \<or> (base = Inr () \<and> enabled = Inr ()
              \<and> (restart = Inr [] \<or> restart = Inl IndexError))))
   \<and> ((ComputeTransportSubtask_setup_and_check base enabled restart self = Inl ValueError)
      = (base = Inl ValueError \<or> (base = Inr () \<and> enabled = Inl ValueError)))"
proof (cases base)
  case (Inl e)
  then show ?thesis
    by (auto simp add: ComputeTransportSubtask_setup_and_check_def)
next
  case b: (Inr u)
  show ?thesis
  proof (cases enabled)
    case (Inl e)
    with b show ?thesis
      by (auto simp add: ComputeTransportSubtask_setup_and_check_def)
  next
    case en: (Inr v)
    show ?thesis
    proof (cases restart)
      case (Inl e)
      with b en show ?thesis
        by (cases e) (auto simp add: ComputeTransportSubtask_setup_and_check_def)
    next
      case (Inr paths)
      with b en show ?thesis
        by (cases paths) (auto simp add: ComputeTransportSubtask_setup_and_check_def)
    qed
  qed
qed

theorem C9_setup_and_check_witness:
  "ComputeTransportSubtask_setup_and_check (Inr ()) (Inr ()) (Inl ValueError) example_compute
     = Inl IOError
   \<and> ComputeTransportSubtask_setup_and_check (Inr ()) (Inr ())
         (Inr [''restart.0002.nc'', ''restart.0003.nc'']) example_compute
     = Inr (example_compute \<lparr> restartFileName := Some ''restart.0002.nc'' \<rparr>)
   \<and> ComputeTransportSubtask_setup_and_check (Inr ()) (Inl ValueError) (Inl ValueError)
        example_compute = Inl ValueError"
  using C9_setup_and_check [of "Inr ()" "Inr ()" "Inl ValueError" example_compute]
        C9_setup_and_check [of "Inr ()" "Inr ()" "Inr [''restart.0002.nc'', ''restart.0003.nc'']"
          example_compute "example_compute \<lparr> restartFileName := Some ''restart.0002.nc'' \<rparr>"]
        C9_setup_and_check [of "Inr ()" "Inl ValueError" "Inl ValueError" example_compute]
  by simp

subsection \<open>\<open>TimeSeriesTransport.__init__\<close>\<close>

lemma add_subtask_fresh:
  "\<forall>x \<in> set (subtasks self). x < r \<Longrightarrow> add_subtask self r = self \<lparr> subtasks := subtasks self @ [r] \<rparr>"
  by (auto simp add: add_subtask_def)

lemma run_after_again: "run_after [] m = [m]" "run_after [m] m = [m]"
  by (simp_all add: run_after_def)

lemma run_after_fresh: "\<forall>x \<in> set rs. x < r \<Longrightarrow> run_after rs r = rs @ [r]"
  by (auto simp add: run_after_def)

text \<open>The loop over the years appends one object per year and extends the combine
  subtask's run-after list by the new addresses.\<close>

lemma compute_loop_closed:
  assumes "c < length store" and "store ! c = CombineTransportSubtask t"
      and "\<forall>x \<in> set (runAfterTasks t). x < length store"
      and "\<forall>x \<in> set (subtasks self). x < length store"
  shows "compute_loop ext cfg m c tp years (self, store) =
     (self \<lparr> subtasks := subtasks self @ [length store ..< length store + length years] \<rparr>,
      store [c := CombineTransportSubtask
                    (t \<lparr> runAfterTasks := runAfterTasks t
                           @ [length store ..< length store + length years] \<rparr>)]
        @ map (\<lambda>y. ComputeTransportSubtask
                     (ComputeTransportSubtask_init (cpu_count ext) cfg self y y m tp)) years)"
  using assms
proof (induction years arbitrary: self store t)
  case Nil
  then have "store [c := CombineTransportSubtask t] = store"
    by (metis list_update_id)
  then show ?case by simp
next
  case (Cons y years)
  let ?obj = "ComputeTransportSubtask (ComputeTransportSubtask_init (cpu_count ext) cfg self y y m tp)"
  let ?t = "t \<lparr> runAfterTasks := runAfterTasks t @ [length store] \<rparr>"
  let ?store = "(store @ [?obj]) [c := CombineTransportSubtask ?t]"
  let ?self = "self \<lparr> subtasks := subtasks self @ [length store] \<rparr>"
  have step: "compute_loop ext cfg m c tp (y # years) (self, store)
                = compute_loop ext cfg m c tp years (?self, ?store)"
    using Cons.prems
    by (simp add: Let_def store_run_after_def nth_append add_subtask_fresh run_after_fresh
          ComputeTransportSubtask_init_def run_after_again list_update_append1)
  have ih: "compute_loop ext cfg m c tp years (?self, ?store) =
     (?self \<lparr> subtasks := subtasks ?self @ [length ?store ..< length ?store + length years] \<rparr>,
      ?store [c := CombineTransportSubtask
                    (?t \<lparr> runAfterTasks := runAfterTasks ?t
                           @ [length ?store ..< length ?store + length years] \<rparr>)]
        @ map (\<lambda>y. ComputeTransportSubtask
                     (ComputeTransportSubtask_init (cpu_count ext) cfg ?self y y m tp)) years)"
    using Cons.prems
    by (intro Cons.IH) (auto simp add: nth_list_update less_Suc_eq)
  have init: "ComputeTransportSubtask_init (cpu_count ext) cfg ?self y' y' m tp
                = ComputeTransportSubtask_init (cpu_count ext) cfg self y' y' m tp" for y'
    by (simp add: ComputeTransportSubtask_init_def)
  have up: "[length store ..< length store + length (y # years)]
              = length store # [Suc (length store) ..< Suc (length store) + length years]"
    by (simp add: upt_rec)
  show ?case
    unfolding step ih init up using Cons.prems(1)
    by (simp add: list_update_append1)
qed

lemma plot_loop_closed:
  assumes "\<forall>x \<in> set (subtasks self). x < length store"
  shows "plot_loop control f c (enumerate i ts) (self, store) =
     (self \<lparr> subtasks := subtasks self @ [length store ..< length store + length ts] \<rparr>,
      store @ map (\<lambda>(idx, t). PlotTransportSubtask
                     ((PlotTransportSubtask_init self t idx control f) \<lparr> runAfterTasks := [c] \<rparr>))
                (enumerate i ts))"
  using assms
proof (induction ts arbitrary: self store i)
  case Nil
  then show ?case by simp
next
  case (Cons t ts)
  let ?obj = "PlotTransportSubtask
                ((PlotTransportSubtask_init self t i control f) \<lparr> runAfterTasks := [c] \<rparr>)"
  let ?self = "self \<lparr> subtasks := subtasks self @ [length store] \<rparr>"
  have step: "plot_loop control f c (enumerate i (t # ts)) (self, store)
                = plot_loop control f c (enumerate (Suc i) ts) (?self, store @ [?obj])"
    using Cons.prems
    by (simp add: Let_def store_run_after_def add_subtask_fresh
          PlotTransportSubtask_init_def run_after_again)
  have ih: "plot_loop control f c (enumerate (Suc i) ts) (?self, store @ [?obj]) =
     (?self \<lparr> subtasks := subtasks ?self
                 @ [length (store @ [?obj]) ..< length (store @ [?obj]) + length ts] \<rparr>,
      (store @ [?obj]) @ map (\<lambda>(idx, t). PlotTransportSubtask
                     ((PlotTransportSubtask_init ?self t idx control f) \<lparr> runAfterTasks := [c] \<rparr>))
                (enumerate (Suc i) ts))"
    using Cons.prems by (intro Cons.IH) (auto simp add: less_Suc_eq)
  have init: "PlotTransportSubtask_init ?self t' idx control f
                = PlotTransportSubtask_init self t' idx control f" for t' idx
    by (simp add: PlotTransportSubtask_init_def)
  have up: "[length store ..< length store + length (t # ts)]
              = length store # [Suc (length store) ..< Suc (length store) + length ts]"
    by (simp add: upt_rec)
  show ?case
    unfolding step ih init up by simp
qed

lemma loops_closed:
  assumes cb: "runAfterTasks cb = []" and s1: "subtasks self1 = [0]"
  shows "plot_loop control f (Suc 0) (enumerate 0 tp)
           (compute_loop ext cfg 0 (Suc 0) tp years (self1, [M, CombineTransportSubtask cb]))
       = (self1 \<lparr> subtasks := 0 # [2 ..< 2 + length years]
                       @ [2 + length years ..< 2 + length years + length tp] \<rparr>,
          [M, CombineTransportSubtask (cb \<lparr> runAfterTasks := [2 ..< 2 + length years] \<rparr>)]
          @ map (\<lambda>y. ComputeTransportSubtask
                       (ComputeTransportSubtask_init (cpu_count ext) cfg self1 y y 0 tp)) years
          @ map (\<lambda>(idx, t). PlotTransportSubtask
                       ((PlotTransportSubtask_init self1 t idx control f)
                          \<lparr> runAfterTasks := [Suc 0] \<rparr>)) (enumerate 0 tp))"
proof -
  let ?store2 = "[M, CombineTransportSubtask cb]"
  let ?self2 = "self1 \<lparr> subtasks := 0 # [2 ..< 2 + length years] \<rparr>"
  let ?store3 = "[M, CombineTransportSubtask (cb \<lparr> runAfterTasks := [2 ..< 2 + length years] \<rparr>)]
          @ map (\<lambda>y. ComputeTransportSubtask
                       (ComputeTransportSubtask_init (cpu_count ext) cfg self1 y y 0 tp)) years"
  have "compute_loop ext cfg 0 (Suc 0) tp years (self1, ?store2) =
     (self1 \<lparr> subtasks := subtasks self1 @ [length ?store2 ..< length ?store2 + length years] \<rparr>,
      ?store2 [Suc 0 := CombineTransportSubtask
                    (cb \<lparr> runAfterTasks := runAfterTasks cb
                           @ [length ?store2 ..< length ?store2 + length years] \<rparr>)]
        @ map (\<lambda>y. ComputeTransportSubtask
                     (ComputeTransportSubtask_init (cpu_count ext) cfg self1 y y 0 tp)) years)"
    by (rule compute_loop_closed) (simp_all add: cb s1)
  then have cl: "compute_loop ext cfg 0 (Suc 0) tp years (self1, ?store2) = (?self2, ?store3)"
    by (simp add: cb s1 numeral_2_eq_2 del: upt_Suc)
  have b: "\<forall>x \<in> set (subtasks ?self2). x < length ?store3"
    by auto
  have i3: "PlotTransportSubtask_init ?self2 t idx control f
              = PlotTransportSubtask_init self1 t idx control f" for t idx
    by (simp add: PlotTransportSubtask_init_def)
  have len: "length ?store3 = 2 + length years"
    by simp
  show ?thesis
    unfolding cl plot_loop_closed [OF b] i3 len
    by simp
qed

text \<open>The constructor in closed form: the subtasks that were added, and the store.\<close>

lemma init_closed:
  "TimeSeriesTransport_init ext cfg control =
     (let years = [getint cfg ''timeSeries'' ''startYear'' .. getint cfg ''timeSeries'' ''endYear''];
          f = get_region_mask ext cfg ''transportTransects.geojson'';
          tp = transects_to_plot ext cfg;
          self1 = \<lparr> taskName = ''timeSeriesTransport'', componentName = ''ocean'',
                     tags = [''timeSeries'', ''transport''], subtaskName = None,
                     runAfterTasks = [], subtasks = [0] \<rparr>
      in (self1 \<lparr> subtasks := 0 # [2 ..< 2 + length years]
                       @ [2 + length years ..< 2 + length years + length tp] \<rparr>,
          [ComputeTransectMasksSubtask f ''transportMasks'' [],
           CombineTransportSubtask
             ((CombineTransportSubtask_init self1 years years)
                \<lparr> runAfterTasks := [2 ..< 2 + length years] \<rparr>)]
          @ map (\<lambda>y. ComputeTransportSubtask
                       (ComputeTransportSubtask_init (cpu_count ext) cfg self1 y y 0 tp)) years
          @ map (\<lambda>(idx, t). PlotTransportSubtask
                       ((PlotTransportSubtask_init self1 t idx control f)
                          \<lparr> runAfterTasks := [Suc 0] \<rparr>)) (enumerate 0 tp)))"
proof -
  let ?self0 = "\<lparr> taskName = ''timeSeriesTransport'', componentName = ''ocean'',
                     tags = [''timeSeries'', ''transport''], subtaskName = None,
                     runAfterTasks = [], subtasks = [] \<rparr> :: time_series_transport"
  let ?self1 = "\<lparr> taskName = ''timeSeriesTransport'', componentName = ''ocean'',
                     tags = [''timeSeries'', ''transport''], subtaskName = None,
                     runAfterTasks = [], subtasks = [0] \<rparr> :: time_series_transport"
  have a: "add_subtask ?self0 0 = ?self1"
    by (simp add: add_subtask_def)
  have p: "(case q of (self2, store3) \<Rightarrow> plot_loop c g k e (self2, store3)) = plot_loop c g k e q"
    for q :: "time_series_transport \<times> subtask list" and c g k e
    by (cases q) simp
  have l: "length [x] = Suc 0" for x :: subtask
    by simp
  have ap: "[x] @ [CombineTransportSubtask y] = [x, CombineTransportSubtask y]" for x y
    by simp
  show ?thesis
    unfolding TimeSeriesTransport_init_def Let_def a p l ap
    by (rule loops_closed) (simp_all add: CombineTransportSubtask_init_def)
qed

lemma map_nth_middle:
  "map (nth (xs @ ys @ zs)) [length xs ..< length xs + length ys] = ys"
proof (rule nth_equalityI)
  show "length (map (nth (xs @ ys @ zs)) [length xs ..< length xs + length ys]) = length ys"
    by simp
next
  fix i
  assume "i < length (map (nth (xs @ ys @ zs)) [length xs ..< length xs + length ys])"
  then show "map (nth (xs @ ys @ zs)) [length xs ..< length xs + length ys] ! i = ys ! i"
    by (simp add: nth_append)
qed

lemma map_nth_last:
  "map (nth (xs @ ys @ zs)) [length xs + length ys ..< length xs + length ys + length zs] = zs"
proof (rule nth_equalityI)
  show "length (map (nth (xs @ ys @ zs))
                  [length xs + length ys ..< length xs + length ys + length zs]) = length zs"
    by simp
next
  fix i
  assume "i < length (map (nth (xs @ ys @ zs))
                        [length xs + length ys ..< length xs + length ys + length zs])"
  then show "map (nth (xs @ ys @ zs))
               [length xs + length ys ..< length xs + length ys + length zs] ! i = zs ! i"
    by (simp add: nth_append)
qed

lemma objects_layout:
  "map (nth ([a, b] @ ys @ zs))
     (0 # [2 ..< 2 + length ys] @ [2 + length ys ..< 2 + length ys + length zs]) = a # ys @ zs"
proof -
  have m: "map (nth ([a, b] @ ys @ zs)) [2 ..< 2 + length ys] = ys"
    and l: "map (nth ([a, b] @ ys @ zs)) [2 + length ys ..< 2 + length ys + length zs] = zs"
    using map_nth_middle [of "[a, b]" ys zs] map_nth_last [of "[a, b]" ys zs]
    by (simp_all add: numeral_2_eq_2 del: upt_Suc)
  show ?thesis
    unfolding list.map map_append m l by simp
qed

text \<open>The objects of \<open>self.subtasks\<close>: the masks subtask, one compute subtask per year, one
  plot subtask per transect to plot.\<close>

lemma objects_closed:
  "subtask_objects (TimeSeriesTransport_init ext cfg control) =
     (let years = [getint cfg ''timeSeries'' ''startYear'' .. getint cfg ''timeSeries'' ''endYear''];
          f = get_region_mask ext cfg ''transportTransects.geojson'';
          tp = transects_to_plot ext cfg;
          self1 = \<lparr> taskName = ''timeSeriesTransport'', componentName = ''ocean'',
                     tags = [''timeSeries'', ''transport''], subtaskName = None,
                     runAfterTasks = [], subtasks = [0] \<rparr>
      in ComputeTransectMasksSubtask f ''transportMasks'' []
         # map (\<lambda>y. ComputeTransportSubtask
                       (ComputeTransportSubtask_init (cpu_count ext) cfg self1 y y 0 tp)) years
         @ map (\<lambda>(idx, t). PlotTransportSubtask
                       ((PlotTransportSubtask_init self1 t idx control f)
                          \<lparr> runAfterTasks := [Suc 0] \<rparr>)) (enumerate 0 tp))"
proof -
  let ?years = "[getint cfg ''timeSeries'' ''startYear'' .. getint cfg ''timeSeries'' ''endYear'']"
  let ?f = "get_region_mask ext cfg ''transportTransects.geojson''"
  let ?tp = "transects_to_plot ext cfg"
  let ?self1 = "\<lparr> taskName = ''timeSeriesTransport'', componentName = ''ocean'',
                     tags = [''timeSeries'', ''transport''], subtaskName = None,
                     runAfterTasks = [], subtasks = [0] \<rparr> :: time_series_transport"
  let ?B = "map (\<lambda>y. ComputeTransportSubtask
                       (ComputeTransportSubtask_init (cpu_count ext) cfg ?self1 y y 0 ?tp)) ?years"
  let ?C = "map (\<lambda>(idx, t). PlotTransportSubtask
                       ((PlotTransportSubtask_init ?self1 t idx control ?f)
                          \<lparr> runAfterTasks := [Suc 0] \<rparr>)) (enumerate 0 ?tp)"
  have sub: "subtasks (s \<lparr> subtasks := X \<rparr>) = X" for s :: time_series_transport and X
    by simp
  have lB: "length ?B = length ?years" and lC: "length ?C = length ?tp"
    by (simp_all only: length_map length_enumerate)
  show ?thesis
    unfolding subtask_objects_def init_closed Let_def fst_conv snd_conv sub
    using objects_layout [of _ _ ?B ?C]
    unfolding lB lC by blast
qed

lemma filter_map_all: "(\<And>x. P (f x)) \<Longrightarrow> filter P (map f xs) = map f xs"
  by (induction xs) simp_all

lemma filter_map_none: "(\<And>x. \<not> P (f x)) \<Longrightarrow> filter P (map f xs) = []"
  by (induction xs) simp_all

text \<open>
  C4, as the claim states it, fails for the configuration whose \<open>transectsToPlot\<close> is
  \<open>['all']\<close>: the list has one element, the transect file has three features, and the
  constructor adds three plot subtasks.  On the same configuration no
  \<open>CombineTransportSubtask\<close> is among the subtasks that were added.
\<close>

theorem C4_all_transects_counterexample:
  "getint all_config ''timeSeries'' ''startYear'' \<le> getint all_config ''timeSeries'' ''endYear''
   \<and> length (getExpression all_config ''timeSeriesTransport'' ''transectsToPlot'') = 1
   \<and> length (filter is_plot
        (subtask_objects (TimeSeriesTransport_init example_externals all_config None))) = 3
   \<and> filter is_combine
        (subtask_objects (TimeSeriesTransport_init example_externals all_config None)) = []"
  by code_simp

text \<open>
  C4, amended.  For every configuration with \<open>startYear \<le> endYear\<close>, the constructor adds
  exactly one transect-masks subtask, exactly \<open>endYear - startYear + 1\<close> compute subtasks,
  the \<open>k\<close>-th covering exactly the single year \<open>startYear + k\<close>, and one plot subtask per
  element of the list of transects to plot, in order and with its position as transect
  index; that list is the option \<open>transectsToPlot\<close>, or the feature list of the transect
  file when the option contains \<open>'all'\<close>.  It constructs one combine subtask, whose
  \<open>startYears\<close> and \<open>endYears\<close> both equal the list of those years.
\<close>

theorem C4_constructed_subtasks:
  assumes le: "getint cfg ''timeSeries'' ''startYear'' \<le> getint cfg ''timeSeries'' ''endYear''"
  shows "length (filter is_masks (subtask_objects (TimeSeriesTransport_init ext cfg control))) = 1
       \<and> int (length (filter is_compute
                (subtask_objects (TimeSeriesTransport_init ext cfg control))))
           = getint cfg ''timeSeries'' ''endYear'' - getint cfg ''timeSeries'' ''startYear'' + 1
       \<and> (\<forall>k. int k \<le> getint cfg ''timeSeries'' ''endYear'' - getint cfg ''timeSeries'' ''startYear''
             \<longrightarrow> compute_years (filter is_compute
                     (subtask_objects (TimeSeriesTransport_init ext cfg control)) ! k)
                 = Some (getint cfg ''timeSeries'' ''startYear'' + int k,
                         getint cfg ''timeSeries'' ''startYear'' + int k))
       \<and> map plot_transect (filter is_plot
             (subtask_objects (TimeSeriesTransport_init ext cfg control)))
           = map Some (enumerate 0
               (if ''all'' \<in> set (getExpression cfg ''timeSeriesTransport'' ''transectsToPlot'')
                then get_feature_list ext (get_region_mask ext cfg ''transportTransects.geojson'')
                else getExpression cfg ''timeSeriesTransport'' ''transectsToPlot''))
       \<and> map combine_years (filter is_combine (snd (TimeSeriesTransport_init ext cfg control)))
           = [Some ([getint cfg ''timeSeries'' ''startYear'' .. getint cfg ''timeSeries'' ''endYear''],
                    [getint cfg ''timeSeries'' ''startYear'' .. getint cfg ''timeSeries'' ''endYear''])]
       \<and> distinct (subtasks (fst (TimeSeriesTransport_init ext cfg control)))"
proof -
  let ?sy = "getint cfg ''timeSeries'' ''startYear''"
  let ?ey = "getint cfg ''timeSeries'' ''endYear''"
  let ?tp = "transects_to_plot ext cfg"
  let ?objs = "subtask_objects (TimeSeriesTransport_init ext cfg control)"
  have tp: "?tp = (if ''all'' \<in> set (getExpression cfg ''timeSeriesTransport'' ''transectsToPlot'')
                then get_feature_list ext (get_region_mask ext cfg ''transportTransects.geojson'')
                else getExpression cfg ''timeSeriesTransport'' ''transectsToPlot'')"
    by (simp add: transects_to_plot_def Let_def)
  have masks: "length (filter is_masks ?objs) = 1"
    unfolding objects_closed Let_def
    by (simp add: filter_map_none split_beta)
  have computes: "map compute_years (filter is_compute ?objs) = map (\<lambda>y. Some (y, y)) [?sy .. ?ey]"
    unfolding objects_closed Let_def
    by (simp add: filter_map_none filter_map_all split_beta ComputeTransportSubtask_init_def
          Let_def comp_def)
  have plots: "map plot_transect (filter is_plot ?objs) = map Some (enumerate 0 ?tp)"
    unfolding objects_closed Let_def
    by (simp add: filter_map_none filter_map_all split_beta PlotTransportSubtask_init_def comp_def)
  have combine: "map combine_years (filter is_combine (snd (TimeSeriesTransport_init ext cfg control)))
                   = [Some ([?sy .. ?ey], [?sy .. ?ey])]"
    unfolding init_closed Let_def
    by (simp add: filter_map_none split_beta CombineTransportSubtask_init_def del: upt_Suc)
  have dist: "distinct (subtasks (fst (TimeSeriesTransport_init ext cfg control)))"
    unfolding init_closed Let_def
    by (auto simp del: upt_Suc)
  have len: "int (length (filter is_compute ?objs)) = ?ey - ?sy + 1"
    using arg_cong [OF computes, of length] le by simp
  have kth: "compute_years (filter is_compute ?objs ! k) = Some (?sy + int k, ?sy + int k)"
    if "int k \<le> ?ey - ?sy" for k
  proof -
    from that len have k: "k < length (filter is_compute ?objs)"
      by linarith
    then have "compute_years (filter is_compute ?objs ! k)
                 = map compute_years (filter is_compute ?objs) ! k"
      by simp
    also have "\<dots> = Some (?sy + int k, ?sy + int k)"
    proof -
      from that have u: "?sy + int k \<le> ?ey"
        by linarith
      from that le have "k < length [?sy .. ?ey]"
        by simp
      then show ?thesis
        unfolding computes by (simp add: nth_upto [OF u])
    qed
    finally show ?thesis .
  qed
  from masks len kth plots combine dist show ?thesis
    unfolding tp by blast
qed

theorem C4_constructed_subtasks_witness:
  "int (length (filter is_compute
          (subtask_objects (TimeSeriesTransport_init example_externals all_config None)))) = 2
   \<and> compute_years (filter is_compute
          (subtask_objects (TimeSeriesTransport_init example_externals all_config None)) ! 1)
       = Some (2, 2)
   \<and> map plot_transect (filter is_plot
          (subtask_objects (TimeSeriesTransport_init example_externals all_config None)))
       = [Some (0, ''Drake Passage''), Some (1, ''Tasmania-Ant''), Some (2, ''Bering Strait'')]
   \<and> map combine_years (filter is_combine
          (snd (TimeSeriesTransport_init example_externals all_config None)))
       = [Some ([1, 2], [1, 2])]"
proof -
  have le: "getint all_config ''timeSeries'' ''startYear''
              \<le> getint all_config ''timeSeries'' ''endYear''"
    by (simp add: all_config_def example_config_def)
  have sy: "getint all_config ''timeSeries'' ''startYear'' = 1"
    and ey: "getint all_config ''timeSeries'' ''endYear'' = 2"
    and tp: "getExpression all_config ''timeSeriesTransport'' ''transectsToPlot'' = [''all'']"
    and fl: "get_feature_list example_externals
               (get_region_mask example_externals all_config ''transportTransects.geojson'')
               = [''Drake Passage'', ''Tasmania-Ant'', ''Bering Strait'']"
    by (simp_all add: all_config_def example_config_def example_externals_def)
  have up: "[1 .. 2 :: int] = [1, 2]"
    by (simp add: upto.simps)
  have en: "enumerate 0 [''Drake Passage'', ''Tasmania-Ant'', ''Bering Strait'']
              = [(0, ''Drake Passage''), (1, ''Tasmania-Ant''), (2, ''Bering Strait'')]"
    by simp
  from C4_constructed_subtasks [OF le, of example_externals None]
  show ?thesis
    unfolding sy ey tp fl up by (simp add: en)
qed

text \<open>
  A store that is laid out as the constructor leaves it: the masks subtask, the combine
  subtask, the compute subtasks, the plot subtasks.  Every constraint leads from a later
  layer to an earlier one.
\<close>

lemma layered_store:
  assumes st: "store = [M, Cb] @ Bs @ Cs"
      and M: "is_masks M" "runAfterTasks_of M = []"
      and Cb: "is_combine Cb" "runAfterTasks_of Cb = [2 ..< 2 + length Bs]"
      and Bs: "\<forall>b \<in> set Bs. is_compute b \<and> runAfterTasks_of b = [0]"
      and Cs: "\<forall>c \<in> set Cs. is_plot c \<and> runAfterTasks_of c = [Suc 0]"
  shows "acyclic (runs_after store)"
    and "\<forall>c m. c < length store \<and> m < length store \<and> is_compute (store ! c) \<and> is_masks (store ! m)
           \<longrightarrow> (c, m) \<in> runs_after store"
    and "\<forall>k c. k < length store \<and> c < length store \<and> is_combine (store ! k) \<and> is_compute (store ! c)
           \<longrightarrow> (k, c) \<in> runs_after store"
    and "\<forall>p k. p < length store \<and> k < length store \<and> is_plot (store ! p) \<and> is_combine (store ! k)
           \<longrightarrow> (p, k) \<in> runs_after store"
    and "filter is_combine store = [Cb]"
    and "filter is_masks store = [M]"
    and "filter is_compute store = Bs"
proof -
  have excl: "\<not> (is_masks x \<and> is_compute x)" "\<not> (is_masks x \<and> is_combine x)"
    "\<not> (is_masks x \<and> is_plot x)" "\<not> (is_compute x \<and> is_combine x)"
    "\<not> (is_compute x \<and> is_plot x)" "\<not> (is_combine x \<and> is_plot x)" for x
    by (cases x; simp)+
  have n0: "store ! 0 = M" and n1: "store ! Suc 0 = Cb"
    by (simp_all add: st)
  have nB: "store ! a \<in> set Bs" if "2 \<le> a" "a < 2 + length Bs" for a
  proof -
    from that have i: "a - 2 < length Bs" and o: "\<not> a < length [M, Cb]"
      by simp_all
    from o have "store ! a = (Bs @ Cs) ! (a - length [M, Cb])"
      unfolding st by (simp only: nth_append if_False)
    also have "\<dots> = Bs ! (a - 2)"
      using i by (simp add: nth_append numeral_2_eq_2)
    finally show ?thesis
      using i by simp
  qed
  have nC: "store ! a \<in> set Cs" if "2 + length Bs \<le> a" "a < length store" for a
  proof -
    from that have i: "a - 2 - length Bs < length Cs" and o: "\<not> a < length [M, Cb]"
      and o': "\<not> a - 2 < length Bs"
      by (simp_all add: st)
    from o have "store ! a = (Bs @ Cs) ! (a - length [M, Cb])"
      unfolding st by (simp only: nth_append if_False)
    also have "\<dots> = Cs ! (a - 2 - length Bs)"
      using o' by (simp add: nth_append numeral_2_eq_2)
    finally show ?thesis
      using i by simp
  qed
  have layer: "a = 0 \<or> a = Suc 0 \<or> (2 \<le> a \<and> a < 2 + length Bs) \<or> 2 + length Bs \<le> a" for a :: nat
    by arith
  have masks: "a = 0" if "a < length store" "is_masks (store ! a)" for a
    using layer [of a] that n1 nB [of a] nC [of a] Cb(1) Bs Cs excl by metis
  have combine: "a = Suc 0" if "a < length store" "is_combine (store ! a)" for a
    using layer [of a] that n0 nB [of a] nC [of a] M(1) Bs Cs excl by metis
  have compute: "2 \<le> a \<and> a < 2 + length Bs" if "a < length store" "is_compute (store ! a)" for a
    using layer [of a] that n0 n1 nC [of a] M(1) Cb(1) Cs excl by metis
  have plot: "2 + length Bs \<le> a" if "a < length store" "is_plot (store ! a)" for a
    using layer [of a] that n0 n1 nB [of a] M(1) Cb(1) Bs excl by metis
  have len: "length store = 2 + length Bs + length Cs"
    by (simp add: st)
  let ?rk = "\<lambda>a. if a = 0 then 0 else if a = Suc 0 then 2 else if a < 2 + length Bs then 1 else (3::nat)"
  have edge: "?rk b < ?rk a" if "(a, b) \<in> runs_after store" for a b
  proof -
    from that have a: "a < length store" and b: "b \<in> set (runAfterTasks_of (store ! a))"
      by (simp_all add: runs_after_def)
    from layer [of a] show ?thesis
    proof (elim disjE)
      assume "a = 0"
      with b n0 M(2) show ?thesis by simp
    next
      assume "a = Suc 0"
      with b n1 Cb(2) show ?thesis by auto
    next
      assume l: "2 \<le> a \<and> a < 2 + length Bs"
      with nB [of a] Bs b have "b = 0" by auto
      with l show ?thesis by auto
    next
      assume l: "2 + length Bs \<le> a"
      with nC [of a] a Cs b have "b = Suc 0" by auto
      with l show ?thesis by auto
    qed
  qed
  have "runs_after store \<subseteq> (measure ?rk)\<inverse>"
    using edge by auto
  moreover have "acyclic ((measure ?rk)\<inverse>)"
    by (simp add: wf_acyclic)
  ultimately show "acyclic (runs_after store)"
    by (rule acyclic_subset [rotated])
  show "\<forall>c m. c < length store \<and> m < length store \<and> is_compute (store ! c) \<and> is_masks (store ! m)
           \<longrightarrow> (c, m) \<in> runs_after store"
  proof (intro allI impI)
    fix c m
    assume h: "c < length store \<and> m < length store \<and> is_compute (store ! c) \<and> is_masks (store ! m)"
    then have "m = 0" and "2 \<le> c \<and> c < 2 + length Bs"
      using masks compute by blast+
    with nB [of c] Bs h show "(c, m) \<in> runs_after store"
      by (auto simp add: runs_after_def)
  qed
  show "\<forall>k c. k < length store \<and> c < length store \<and> is_combine (store ! k) \<and> is_compute (store ! c)
           \<longrightarrow> (k, c) \<in> runs_after store"
  proof (intro allI impI)
    fix k c
    assume h: "k < length store \<and> c < length store \<and> is_combine (store ! k) \<and> is_compute (store ! c)"
    then have "k = Suc 0" and "2 \<le> c \<and> c < 2 + length Bs"
      using combine compute by blast+
    with n1 Cb(2) h show "(k, c) \<in> runs_after store"
      by (auto simp add: runs_after_def)
  qed
  show "\<forall>p k. p < length store \<and> k < length store \<and> is_plot (store ! p) \<and> is_combine (store ! k)
           \<longrightarrow> (p, k) \<in> runs_after store"
  proof (intro allI impI)
    fix p k
    assume h: "p < length store \<and> k < length store \<and> is_plot (store ! p) \<and> is_combine (store ! k)"
    then have "k = Suc 0" and "2 + length Bs \<le> p"
      using combine plot by blast+
    with nC [of p] Cs h show "(p, k) \<in> runs_after store"
      by (auto simp add: runs_after_def)
  qed
  have fB: "filter is_combine Bs = []" "filter is_masks Bs = []" "filter is_compute Bs = Bs"
    using Bs excl by (auto simp add: filter_empty_conv filter_id_conv)
  have fC: "filter is_combine Cs = []" "filter is_masks Cs = []" "filter is_compute Cs = []"
    using Cs excl by (auto simp add: filter_empty_conv)
  show "filter is_combine store = [Cb]" "filter is_masks store = [M]" "filter is_compute store = Bs"
    using M(1) Cb(1) excl by (auto simp add: st fB fC)
qed

text \<open>
  C2.  For every configuration with \<open>startYear \<le> endYear\<close>, the run-after constraints
  that the constructor establishes form an acyclic relation in which every compute
  subtask runs after the masks subtask, the single combine subtask runs after every
  compute subtask, and every plot subtask runs after the combine subtask.  There is
  exactly one masks subtask and one combine subtask, and at least one compute subtask.
\<close>

theorem C2_run_after_dag:
  assumes le: "getint cfg ''timeSeries'' ''startYear'' \<le> getint cfg ''timeSeries'' ''endYear''"
  shows "acyclic (runs_after (snd (TimeSeriesTransport_init ext cfg control)))
       \<and> (\<forall>c m. c < length (snd (TimeSeriesTransport_init ext cfg control))
               \<and> m < length (snd (TimeSeriesTransport_init ext cfg control))
               \<and> is_compute (snd (TimeSeriesTransport_init ext cfg control) ! c)
               \<and> is_masks (snd (TimeSeriesTransport_init ext cfg control) ! m)
             \<longrightarrow> (c, m) \<in> runs_after (snd (TimeSeriesTransport_init ext cfg control)))
       \<and> (\<forall>k c. k < length (snd (TimeSeriesTransport_init ext cfg control))
               \<and> c < length (snd (TimeSeriesTransport_init ext cfg control))
               \<and> is_combine (snd (TimeSeriesTransport_init ext cfg control) ! k)
               \<and> is_compute (snd (TimeSeriesTransport_init ext cfg control) ! c)
             \<longrightarrow> (k, c) \<in> runs_after (snd (TimeSeriesTransport_init ext cfg control)))
       \<and> (\<forall>p k. p < length (snd (TimeSeriesTransport_init ext cfg control))
               \<and> k < length (snd (TimeSeriesTransport_init ext cfg control))
               \<and> is_plot (snd (TimeSeriesTransport_init ext cfg control) ! p)
               \<and> is_combine (snd (TimeSeriesTransport_init ext cfg control) ! k)
             \<longrightarrow> (p, k) \<in> runs_after (snd (TimeSeriesTransport_init ext cfg control)))
       \<and> length (filter is_masks (snd (TimeSeriesTransport_init ext cfg control))) = 1
       \<and> length (filter is_combine (snd (TimeSeriesTransport_init ext cfg control))) = 1
       \<and> 0 < length (filter is_compute (snd (TimeSeriesTransport_init ext cfg control)))"
proof -
  let ?years = "[getint cfg ''timeSeries'' ''startYear'' .. getint cfg ''timeSeries'' ''endYear'']"
  let ?f = "get_region_mask ext cfg ''transportTransects.geojson''"
  let ?tp = "transects_to_plot ext cfg"
  let ?self1 = "\<lparr> taskName = ''timeSeriesTransport'', componentName = ''ocean'',
                     tags = [''timeSeries'', ''transport''], subtaskName = None,
                     runAfterTasks = [], subtasks = [0] \<rparr> :: time_series_transport"
  let ?M = "ComputeTransectMasksSubtask ?f ''transportMasks'' []"
  let ?Cb = "CombineTransportSubtask
               ((CombineTransportSubtask_init ?self1 ?years ?years)
                  \<lparr> runAfterTasks := [2 ..< 2 + length ?years] \<rparr>)"
  let ?B = "map (\<lambda>y. ComputeTransportSubtask
                       (ComputeTransportSubtask_init (cpu_count ext) cfg ?self1 y y 0 ?tp)) ?years"
  let ?C = "map (\<lambda>(idx, t). PlotTransportSubtask
                       ((PlotTransportSubtask_init ?self1 t idx control ?f)
                          \<lparr> runAfterTasks := [Suc 0] \<rparr>)) (enumerate 0 ?tp)"
  let ?store = "snd (TimeSeriesTransport_init ext cfg control)"
  have st: "?store = [?M, ?Cb] @ ?B @ ?C"
    unfolding init_closed Let_def snd_conv by (rule refl)
  have M: "is_masks ?M" "runAfterTasks_of ?M = []"
    by simp_all
  have lB: "length ?B = length ?years"
    by (simp only: length_map)
  have Cb: "is_combine ?Cb" "runAfterTasks_of ?Cb = [2 ..< 2 + length ?B]"
    unfolding lB by simp_all
  have Bs: "\<forall>b \<in> set ?B. is_compute b \<and> runAfterTasks_of b = [0]"
    by (auto simp add: ComputeTransportSubtask_init_def Let_def run_after_again)
  have Cs: "\<forall>c \<in> set ?C. is_plot c \<and> runAfterTasks_of c = [Suc 0]"
    by (auto simp add: split_beta)
  note L = layered_store [OF st M Cb Bs Cs]
  from le have "0 < length ?B"
    unfolding lB by simp
  with L show ?thesis
    by simp
qed

theorem C2_run_after_dag_witness:
  "acyclic (runs_after (snd (TimeSeriesTransport_init example_externals example_config None)))
   \<and> (2, 0) \<in> runs_after (snd (TimeSeriesTransport_init example_externals example_config None))
   \<and> (1, 2) \<in> runs_after (snd (TimeSeriesTransport_init example_externals example_config None))
   \<and> (4, 1) \<in> runs_after (snd (TimeSeriesTransport_init example_externals example_config None))"
proof -
  have le: "getint example_config ''timeSeries'' ''startYear''
              \<le> getint example_config ''timeSeries'' ''endYear''"
    by (simp add: example_config_def)
  have cls: "length (snd (TimeSeriesTransport_init example_externals example_config None)) = 6"
    "is_masks (snd (TimeSeriesTransport_init example_externals example_config None) ! 0)"
    "is_combine (snd (TimeSeriesTransport_init example_externals example_config None) ! Suc 0)"
    "is_compute (snd (TimeSeriesTransport_init example_externals example_config None) ! 2)"
    "is_plot (snd (TimeSeriesTransport_init example_externals example_config None) ! 4)"
    by code_simp+
  note T = C2_run_after_dag [OF le, of example_externals None]
  have a: "acyclic (runs_after (snd (TimeSeriesTransport_init example_externals example_config None)))"
    by (rule T [THEN conjunct1])
  have e1: "(2, 0) \<in> runs_after (snd (TimeSeriesTransport_init example_externals example_config None))"
    by (rule T [THEN conjunct2, THEN conjunct1, rule_format]) (simp add: cls)
  have e2: "(1, 2) \<in> runs_after (snd (TimeSeriesTransport_init example_externals example_config None))"
    by (rule T [THEN conjunct2, THEN conjunct2, THEN conjunct1, rule_format]) (simp add: cls)
  have e3: "(4, 1) \<in> runs_after (snd (TimeSeriesTransport_init example_externals example_config None))"
    by (rule T [THEN conjunct2, THEN conjunct2, THEN conjunct2, THEN conjunct1, rule_format])
       (simp add: cls)
  from a e1 e2 e3 show ?thesis
    by simp
qed

end

